theory Spec2Isabelle
  imports Main "HOL-Library.Word" "HOL-Library.Sublist"
begin

unbundle bit_operations_syntax

text \<open>
  The Terraform provider \<open>jks\<close> manages one resource, a PKCS12 keystore kept as base64
  text in the Terraform state. \<open>keystore_model.go\<close> creates the keystore and rotates
  its password by running \<open>keytool\<close> on temp files; the resource's Create, Read and
  Update call it and write the state. This theory embeds both layers: the file system,
  the subprocess and the random source are explicit, every error return of the Go code
  is a branch, and each function returns what the Go function returns together with the
  world it leaves.
\<close>

section \<open>Values shared by the provider\<close>

type_synonym byte = "8 word"
type_synonym path = string

text \<open>
  Go's \<open>error\<close> values that occur in the provider: the decode error of
  \<open>encoding/base64\<close> (with the input offset it reports), an error handed back by the
  operating system or by \<open>os/exec\<close> (its text is the environment's), and an error built
  by \<open>fmt.Errorf\<close>. A nil error is \<open>None\<close> of \<open>error option\<close>.
\<close>

datatype error = CorruptInputError nat | SysError string | Errorf string

fun itoa :: "nat \<Rightarrow> string" where
  "itoa n = (if n < 10 then [''0123456789'' ! n]
             else itoa (n div 10) @ [''0123456789'' ! (n mod 10)])"

fun Error :: "error \<Rightarrow> string" where
  "Error (CorruptInputError n) = ''illegal base64 data at input byte '' @ itoa n"
| "Error (SysError s) = s"
| "Error (Errorf s) = s"

text \<open>
  \<open>fmt.Errorf\<close> with the one verb the provider uses: each \<open>%s\<close> of the format is
  replaced by the next argument (an error argument is passed as its \<open>Error\<close> text).
  Go prints \<open>%!s(MISSING)\<close> for a verb without an argument; no format of the provider
  has more arguments than verbs.
\<close>

fun Sprintf :: "string \<Rightarrow> string list \<Rightarrow> string" where
  "Sprintf [] args = []"
| "Sprintf [c] args = [c]"
| "Sprintf (c # d # cs) args =
     (if c = CHR ''%'' \<and> d = CHR ''s'' then
        (case args of
           [] \<Rightarrow> ''%!s(MISSING)'' @ Sprintf cs []
         | a # as \<Rightarrow> a @ Sprintf cs as)
      else c # Sprintf (d # cs) args)"

definition fmt_Errorf :: "string \<Rightarrow> string list \<Rightarrow> error" where
  "fmt_Errorf format args = Errorf (Sprintf format args)"

definition LF :: char where
  "LF = CHR 0x0A"

definition CR :: char where
  "CR = CHR 0x0D"

section \<open>base64.StdEncoding of the Go standard library\<close>

text \<open>
  The provider calls \<open>base64.StdEncoding.EncodeToString\<close> and
  \<open>base64.StdEncoding.DecodeString\<close>. Both are pure functions of the standard library:
  the alphabet of RFC 4648 with \<open>=\<close> padding, not strict, carriage returns and line
  feeds ignored by the decoder. \<open>Decode\<close> below follows the library's
  \<open>decodeQuantum\<close> loop: \<open>j\<close> counts the characters of the current quantum,
  \<open>dbuf\<close> holds their values, \<open>si\<close> is the index into the input.
\<close>

definition encodeStd :: string where
  "encodeStd = ''ABCDEFGHIJKLMNOPQRSTUVWXYZabcdefghijklmnopqrstuvwxyz0123456789+/''"

definition padChar :: char where
  "padChar = CHR ''=''"

definition decodeMap :: "char \<Rightarrow> byte" where
  "decodeMap c = (case map_of (zip encodeStd (map of_nat [0..<64])) c of
                    None \<Rightarrow> 0xFF | Some v \<Rightarrow> v)"

definition encode_char :: "64 word \<Rightarrow> char" where
  "encode_char v = encodeStd ! unat (v AND 0x3F)"

fun Encode :: "byte list \<Rightarrow> string" where
  "Encode [] = []"
| "Encode [a] =
     (let val = push_bit 16 (ucast a :: 64 word)
      in [encode_char (drop_bit 18 val), encode_char (drop_bit 12 val), padChar, padChar])"
| "Encode [a, b] =
     (let val = push_bit 16 (ucast a :: 64 word) OR push_bit 8 (ucast b)
      in [encode_char (drop_bit 18 val), encode_char (drop_bit 12 val),
          encode_char (drop_bit 6 val), padChar])"
| "Encode (a # b # c # rest) =
     (let val = push_bit 16 (ucast a :: 64 word) OR push_bit 8 (ucast b) OR ucast c
      in [encode_char (drop_bit 18 val), encode_char (drop_bit 12 val),
          encode_char (drop_bit 6 val), encode_char val] @ Encode rest)"

definition EncodeToString :: "byte list \<Rightarrow> string" where
  "EncodeToString src = Encode src"

definition is_newline :: "char \<Rightarrow> bool" where
  "is_newline c = (c = LF \<or> c = CR)"

fun skip_newlines :: "nat \<Rightarrow> string \<Rightarrow> nat \<times> string" where
  "skip_newlines si [] = (si, [])"
| "skip_newlines si (c # cs) =
     (if is_newline c then skip_newlines (Suc si) cs else (si, c # cs))"

text \<open>
  The bytes of one quantum: the (up to four) six-bit values are packed into 24 bits and
  the first \<open>dlen - 1\<close> bytes are written.
\<close>

definition quantum_bytes :: "nat \<Rightarrow> byte list \<Rightarrow> byte list" where
  "quantum_bytes dlen dbuf =
     (let d = dbuf @ replicate (4 - length dbuf) 0;
          val = push_bit 18 (ucast (d ! 0) :: 64 word) OR push_bit 12 (ucast (d ! 1))
                OR push_bit 6 (ucast (d ! 2)) OR ucast (d ! 3)
      in take (dlen - 1) [ucast (drop_bit 16 val), ucast (drop_bit 8 val), ucast val])"

text \<open>
  After the padding of a quantum only newlines may follow; anything else is trailing
  garbage, reported with the bytes of the quantum already written.
\<close>

definition after_padding :: "nat \<Rightarrow> byte list \<Rightarrow> nat \<Rightarrow> string \<Rightarrow> byte list \<times> error option" where
  "after_padding j dbuf si cs =
     (case skip_newlines si cs of
        (si', []) \<Rightarrow> (quantum_bytes j dbuf, None)
      | (si', _ # _) \<Rightarrow> (quantum_bytes j dbuf, Some (CorruptInputError si')))"

fun Decode :: "nat \<Rightarrow> byte list \<Rightarrow> nat \<Rightarrow> string \<Rightarrow> byte list \<times> error option" where
  "Decode j dbuf si [] =
     (if j = 0 then ([], None) else ([], Some (CorruptInputError (si - j))))"
| "Decode j dbuf si (c # cs) =
     (if decodeMap c \<noteq> 0xFF then
        (if j = 3 then
           (case Decode 0 [] (Suc si) cs of
              (bs, err) \<Rightarrow> (quantum_bytes 4 (dbuf @ [decodeMap c]) @ bs, err))
         else Decode (Suc j) (dbuf @ [decodeMap c]) (Suc si) cs)
      else if is_newline c then Decode j dbuf (Suc si) cs
      else if c \<noteq> padChar then ([], Some (CorruptInputError si))
      else if j < 2 then ([], Some (CorruptInputError si))
      else if j = 2 then
        (case skip_newlines (Suc si) cs of
           (si2, []) \<Rightarrow> ([], Some (CorruptInputError si2))
         | (si2, d # ds) \<Rightarrow>
             if d \<noteq> padChar then ([], Some (CorruptInputError (si2 - 1)))
             else after_padding j dbuf (Suc si2) ds)
      else after_padding j dbuf (Suc si) cs)"

text \<open>Go returns the bytes decoded so far together with the error.\<close>

definition DecodeString :: "string \<Rightarrow> byte list \<times> error option" where
  "DecodeString s = Decode 0 [] 0 s"

section \<open>The environment: file system, subprocesses, random source\<close>

text \<open>
  The provider works through \<open>os.WriteFile\<close>, \<open>os.ReadFile\<close>, \<open>os.Remove\<close>,
  \<open>exec.Command(...).CombinedOutput()\<close> and \<open>uuid.New()\<close>. What these do is not
  the provider's code, so it is a parameter: a \<open>system\<close> gives, for each call, its
  result and its effect on the files. The theorems quantify over every system.
  The permission bits of \<open>os.WriteFile\<close> (0644) and the messages of \<open>tflog\<close> are
  left out: nothing the provider does depends on them. \<open>uuid.New()\<close> draws the next
  value of the random source (\<open>rand\<close> counts the draws); its panic on a broken random
  source is not modelled.
\<close>

type_synonym fs = "path \<rightharpoonup> byte list"

record system =
  sys_WriteFile :: "path \<Rightarrow> byte list \<Rightarrow> fs \<Rightarrow> error option \<times> fs"
  sys_ReadFile :: "path \<Rightarrow> fs \<Rightarrow> error + byte list"
  sys_Remove :: "path \<Rightarrow> fs \<Rightarrow> error option \<times> fs"
  sys_CombinedOutput :: "string list \<Rightarrow> fs \<Rightarrow> (string \<times> error option) \<times> fs"
  sys_uuid :: "nat \<Rightarrow> string"

text \<open>
  Every call the provider makes is recorded with its arguments and its result, in order,
  so that the sequence of effects of a run can be stated.
\<close>

datatype event =
    WriteFile path "byte list" "error option"
  | CombinedOutput "string list" string "error option"
  | Remove path "error option"
  | ReadFile path "error + byte list"

fun failed :: "event \<Rightarrow> error option" where
  "failed (WriteFile p d r) = r"
| "failed (CombinedOutput argv out r) = r"
| "failed (Remove p r) = r"
| "failed (ReadFile p (Inl x)) = Some x"
| "failed (ReadFile p (Inr d)) = None"

fun is_CombinedOutput :: "event \<Rightarrow> bool" where
  "is_CombinedOutput (CombinedOutput argv out r) = True"
| "is_CombinedOutput (WriteFile p d r) = False"
| "is_CombinedOutput (Remove p r) = False"
| "is_CombinedOutput (ReadFile p r) = False"

fun first_failure :: "event list \<Rightarrow> error option" where
  "first_failure [] = None"
| "first_failure (ev # evs) =
     (case failed ev of Some x \<Rightarrow> Some x | None \<Rightarrow> first_failure evs)"

record world =
  files :: fs
  trace :: "event list"
  rand :: nat

definition os_WriteFile :: "system \<Rightarrow> path \<Rightarrow> byte list \<Rightarrow> world \<Rightarrow> error option \<times> world" where
  "os_WriteFile e name data w =
     (case sys_WriteFile e name data (files w) of
        (r, fs') \<Rightarrow> (r, w\<lparr>files := fs', trace := trace w @ [WriteFile name data r]\<rparr>))"

definition os_ReadFile :: "system \<Rightarrow> path \<Rightarrow> world \<Rightarrow> (error + byte list) \<times> world" where
  "os_ReadFile e name w =
     (let r = sys_ReadFile e name (files w)
      in (r, w\<lparr>trace := trace w @ [ReadFile name r]\<rparr>))"

definition os_Remove :: "system \<Rightarrow> path \<Rightarrow> world \<Rightarrow> error option \<times> world" where
  "os_Remove e name w =
     (case sys_Remove e name (files w) of
        (r, fs') \<Rightarrow> (r, w\<lparr>files := fs', trace := trace w @ [Remove name r]\<rparr>))"

definition exec_CombinedOutput :: "system \<Rightarrow> string list \<Rightarrow> world \<Rightarrow> (string \<times> error option) \<times> world" where
  "exec_CombinedOutput e argv w =
     (case sys_CombinedOutput e argv (files w) of
        ((out, r), fs') \<Rightarrow>
          ((out, r), w\<lparr>files := fs', trace := trace w @ [CombinedOutput argv out r]\<rparr>))"


text \<open>The events a run added to the trace.\<close>

definition new_events :: "world \<Rightarrow> world \<Rightarrow> event list" where
  "new_events w w' = drop (length (trace w)) (trace w')"

text \<open>
  Replaying recorded events on the system: each recorded call is made on the files the
  previous calls left, and its recorded result must be the system's answer. The replay
  of the events of a run gives the files the run leaves exactly when every recorded call
  was made on the system, in that order, and its effect kept.
\<close>

fun replay :: "system \<Rightarrow> event list \<Rightarrow> fs \<Rightarrow> fs option" where
  "replay e [] fs = Some fs"
| "replay e (WriteFile p d r # evs) fs =
     (case sys_WriteFile e p d fs of
        (r', fs') \<Rightarrow> if r' = r then replay e evs fs' else None)"
| "replay e (CombinedOutput argv out r # evs) fs =
     (case sys_CombinedOutput e argv fs of
        ((out', r'), fs') \<Rightarrow> if out' = out \<and> r' = r then replay e evs fs' else None)"
| "replay e (Remove p r # evs) fs =
     (case sys_Remove e p fs of
        (r', fs') \<Rightarrow> if r' = r then replay e evs fs' else None)"
| "replay e (ReadFile p r # evs) fs =
     (if sys_ReadFile e p fs = r then replay e evs fs else None)"

section \<open>The models\<close>

text \<open>
  A \<open>types.String\<close> of the plugin framework is null, unknown or a known string;
  \<open>ValueString\<close> reads null and unknown as the empty string. Two values are
  \<open>reflect.DeepEqual\<close> exactly when they are the same kind with the same string,
  which is equality of this datatype.
\<close>

datatype tfString = StringNull | StringUnknown | StringValue string

fun ValueString :: "tfString \<Rightarrow> string" where
  "ValueString StringNull = []"
| "ValueString StringUnknown = []"
| "ValueString (StringValue s) = s"

text \<open>
  The resource's data model (attributes \<open>id\<close>, \<open>password\<close>, \<open>base64_text\<close>) and
  the keystore model of \<open>keystore_model.go\<close>. Both structs name a field
  \<open>Password\<close> and a field \<open>Base64Text\<close>: the plain names are the keystore model's,
  the resource's are written \<open>KeystoreResourceModel.Password\<close> and
  \<open>KeystoreResourceModel.Base64Text\<close>.
\<close>

record KeystoreResourceModel =
  Id :: tfString
  Password :: tfString
  Base64Text :: tfString

record KeystoreModel =
  Password :: string
  Base64Text :: string

section \<open>keystore\_model.go\<close>

definition FILENAME :: path where
  "FILENAME = ''79e00021-58b2-4652-b498-59134c0ed6e7.pkcs12''"

definition FILENAME2 :: path where
  "FILENAME2 = ''79e00021-58b2-4652-b498-59134c0ed6e72.pkcs12''"

text \<open>The argument vector of the command built by \<open>CreateKeystoreBase64\<close>.\<close>

definition create_cmd :: "KeystoreModel \<Rightarrow> string list" where
  "create_cmd m =
     [''keytool'',
      ''-v'',
      ''-genkeypair'',
      ''-alias'', ''keystore'',
      ''-keypass'', Password m,
      ''-keystore'', FILENAME,
      ''-storepass'', Password m,
      ''-validity'', ''10000'',
      ''-keyalg'', ''RSA'',
      ''-keysize'', ''2048'',
      ''-dname'', ''CN=Unknown, OU=Unknown, O=Unknown, L=Unknown, S=Unknown, C=Unknown'']"

text \<open>
  \<open>CreateKeystoreBase64\<close> returns Go's pair of a string and an error; the world is
  threaded through the calls.
\<close>

definition CreateKeystoreBase64 :: "system \<Rightarrow> KeystoreModel \<Rightarrow> world \<Rightarrow> (string \<times> error option) \<times> world" where
  "CreateKeystoreBase64 e m w =
     (let fileName = FILENAME in
      case exec_CombinedOutput e (create_cmd m) w of
        ((output, Some err), w1) \<Rightarrow>
          (([], Some (fmt_Errorf
             ''error after executing command to produce keystore file. Is the keytool installed on the machine?\<newline>Error:%s\<newline>Output: %s''
             [Error err, output])), w1)
      | ((output, None), w1) \<Rightarrow>
          (case os_ReadFile e fileName w1 of
             (Inl err, w2) \<Rightarrow>
               (([], Some (fmt_Errorf
                  ''error reading keystore file after producing keystore file\<newline>Error: %s''
                  [Error err])), w2)
           | (Inr bytes, w2) \<Rightarrow>
               (case os_Remove e fileName w2 of
                  (Some err, w3) \<Rightarrow>
                    (([], Some (fmt_Errorf
                       ''error removing keystore file after reading keystore file\<newline>Error: %s''
                       [Error err])), w3)
                | (None, w3) \<Rightarrow> ((EncodeToString bytes, None), w3))))"

text \<open>The argument vector of the command built by \<open>UpdateKeystoreBase64\<close>.\<close>

definition changePassCmd :: "KeystoreModel \<Rightarrow> string \<Rightarrow> string list" where
  "changePassCmd oldModel newPassword =
     [''keytool'',
      ''-importkeystore'',
      ''-srckeystore'', FILENAME,
      ''-srcstoretype'', ''PKCS12'',
      ''-srcstorepass'', Password oldModel,
      ''-destkeystore'', FILENAME2,
      ''-deststoretype'', ''PKCS12'',
      ''-deststorepass'', newPassword,
      ''-destkeypass'', newPassword]"

definition UpdateKeystoreBase64 :: "system \<Rightarrow> KeystoreModel \<Rightarrow> string \<Rightarrow> world \<Rightarrow> (string \<times> error option) \<times> world" where
  "UpdateKeystoreBase64 e oldModel newPassword w =
     (let fileName = FILENAME; fileName2 = FILENAME2 in
      case DecodeString (Base64Text oldModel) of
        (decoded, Some err) \<Rightarrow> (([], Some err), w)
      | (decoded, None) \<Rightarrow>
          (case os_WriteFile e fileName decoded w of
             (Some err, w1) \<Rightarrow> (([], Some err), w1)
           | (None, w1) \<Rightarrow>
               (case exec_CombinedOutput e (changePassCmd oldModel newPassword) w1 of
                  ((out, Some err), w2) \<Rightarrow>
                    (([], Some (fmt_Errorf
                       ''error changing password\<newline>Error: %s\<newline>Output: %s''
                       [Error err, out])), w2)
                | ((out, None), w2) \<Rightarrow>
                    (case os_Remove e fileName w2 of
                       (Some err, w3) \<Rightarrow>
                         (([], Some (fmt_Errorf
                            ''error removing old keystore file after changing password\<newline>File name: %s\<newline>Error: %s''
                            [fileName, Error err])), w3)
                     | (None, w3) \<Rightarrow>
                         (case os_ReadFile e fileName2 w3 of
                            (Inl err, w4) \<Rightarrow>
                              (([], Some (fmt_Errorf
                                 ''error reading new keystore file after changing password\<newline>File name: %s\<newline>Error: %s''
                                 [fileName2, Error err])), w4)
                          | (Inr bytes, w4) \<Rightarrow>
                              (case os_Remove e fileName2 w4 of
                                 (Some err, w5) \<Rightarrow>
                                   (([], Some (fmt_Errorf
                                      ''error removing keystore file after reading keystore file. Error: %s''
                                      [Error err])), w5)
                               | (None, w5) \<Rightarrow> ((EncodeToString bytes, None), w5)))))))"

section \<open>The keystore resource\<close>

text \<open>
  Diagnostics of the plugin framework: \<open>Append\<close> skips a diagnostic that is already
  there, \<open>AddError\<close> appends an error diagnostic, \<open>HasError\<close> looks for one.
\<close>

datatype severity = SeverityError | SeverityWarning

datatype diagnostic = Diagnostic severity string string

fun is_error :: "diagnostic \<Rightarrow> bool" where
  "is_error (Diagnostic sev summary detail) = (sev = SeverityError)"

definition HasError :: "diagnostic list \<Rightarrow> bool" where
  "HasError diags = list_ex is_error diags"

fun Append :: "diagnostic list \<Rightarrow> diagnostic list \<Rightarrow> diagnostic list" where
  "Append diags [] = diags"
| "Append diags (d # ds) = Append (if List.member diags d then diags else diags @ [d]) ds"

definition AddError :: "diagnostic list \<Rightarrow> string \<Rightarrow> string \<Rightarrow> diagnostic list" where
  "AddError diags summary detail = Append diags [Diagnostic SeverityError summary detail]"

text \<open>
  Requests and responses carry the plan and the state as values of the data model
  (\<open>Plan.Get\<close> and \<open>State.Get\<close> read them; every attribute of the schema is a string and
  every field of the struct a \<open>types.String\<close>, so the conversions report no diagnostic).
  The state of a response is \<open>None\<close> while it is null; \<open>State.Set\<close> stores a value.
  The responses of Create, Read and Update have the same two fields and share one record.
  Field names that occur in several records are written with the record's name.
\<close>

record 'd CreateRequest =
  Plan :: 'd

record 'd ReadRequest =
  State :: 'd

record 'd UpdateRequest =
  Plan :: 'd
  State :: 'd

record 'd Response =
  State :: "'d option"
  Diagnostics :: "diagnostic list"

definition State_Set :: "'d \<Rightarrow> 'd Response \<Rightarrow> 'd Response" where
  "State_Set data resp = resp\<lparr>Response.State := Some data\<rparr>"

definition ToKeystoreModel :: "KeystoreResourceModel \<Rightarrow> KeystoreModel" where
  "ToKeystoreModel r =
     \<lparr> Password = ValueString (KeystoreResourceModel.Password r),
       Base64Text = ValueString (KeystoreResourceModel.Base64Text r) \<rparr>"


definition Read :: "'d ReadRequest \<Rightarrow> 'd Response \<Rightarrow> 'd Response" where
  "Read req resp =
     (let data = ReadRequest.State req in
      if HasError (Diagnostics resp) then resp
      else State_Set data resp)"

definition Update :: "system \<Rightarrow> KeystoreResourceModel UpdateRequest \<Rightarrow> KeystoreResourceModel Response
    \<Rightarrow> world \<Rightarrow> KeystoreResourceModel Response \<times> world" where
  "Update e req resp w =
     (let data = UpdateRequest.Plan req; oldData = UpdateRequest.State req in
      if HasError (Diagnostics resp) then (resp, w)
      else if data = oldData then (State_Set data resp, w)
      else
        (let newModel = ToKeystoreModel data; oldModel = ToKeystoreModel oldData in
         case UpdateKeystoreBase64 e oldModel (Password newModel) w of
           ((b64File, Some err), w1) \<Rightarrow>
             (resp\<lparr>Diagnostics :=
                 AddError (Diagnostics resp) ''Error during update operation'' (Error err)\<rparr>, w1)
         | ((b64File, None), w1) \<Rightarrow>
             (let newModel = newModel\<lparr>Base64Text := b64File\<rparr>;
                  data = data\<lparr>KeystoreResourceModel.Base64Text :=
                           StringValue (Base64Text newModel)\<rparr>
              in (State_Set data resp, w1))))"


text \<open>
  The value that follows a flag in an argument vector, and the call an event records
  (the event without its result).
\<close>

fun flag_value :: "string \<Rightarrow> string list \<Rightarrow> string option" where
  "flag_value f [] = None"
| "flag_value f [x] = None"
| "flag_value f (x # y # xs) = (if x = f then Some y else flag_value f (y # xs))"

datatype call =
    CallWriteFile path "byte list"
  | CallCombinedOutput "string list"
  | CallRemove path
  | CallReadFile path

fun call_of :: "event \<Rightarrow> call" where
  "call_of (WriteFile p d r) = CallWriteFile p d"
| "call_of (CombinedOutput argv out r) = CallCombinedOutput argv"
| "call_of (Remove p r) = CallRemove p"
| "call_of (ReadFile p r) = CallReadFile p"



section \<open>A simulated system\<close>

text \<open>
  One concrete \<open>system\<close>, used to run the provider on concrete inputs: files are a map
  from names to contents, a call fails when it is listed in \<open>faults\<close> (a permission
  error, a missing \<open>keytool\<close>) or when its file does not exist, and \<open>keytool\<close> is a
  stand-in that writes a fixed four-byte store for \<open>-genkeypair\<close> and copies the source
  store to the destination for \<open>-importkeystore\<close>.
\<close>

datatype syscall = SysWrite | SysRead | SysRemove | SysExec

type_synonym faults = "(syscall \<times> string) list"

definition ENOENT :: "string \<Rightarrow> path \<Rightarrow> error" where
  "ENOENT opname name = SysError (opname @ '' '' @ name @ '': no such file or directory'')"

definition sim_WriteFile :: "faults \<Rightarrow> path \<Rightarrow> byte list \<Rightarrow> fs \<Rightarrow> error option \<times> fs" where
  "sim_WriteFile fl name data fs =
     (if List.member fl (SysWrite, name)
      then (Some (SysError (''open '' @ name @ '': permission denied'')), fs)
      else (None, fs(name \<mapsto> data)))"

definition sim_ReadFile :: "faults \<Rightarrow> path \<Rightarrow> fs \<Rightarrow> error + byte list" where
  "sim_ReadFile fl name fs =
     (if List.member fl (SysRead, name)
      then Inl (SysError (''open '' @ name @ '': permission denied''))
      else (case fs name of None \<Rightarrow> Inl (ENOENT ''open'' name) | Some data \<Rightarrow> Inr data))"

definition sim_Remove :: "faults \<Rightarrow> path \<Rightarrow> fs \<Rightarrow> error option \<times> fs" where
  "sim_Remove fl name fs =
     (if List.member fl (SysRemove, name)
      then (Some (SysError (''remove '' @ name @ '': permission denied'')), fs)
      else (case fs name of
              None \<Rightarrow> (Some (ENOENT ''remove'' name), fs)
            | Some data \<Rightarrow> (None, fs(name := None))))"

definition sim_keytool :: "string list \<Rightarrow> fs \<Rightarrow> (string \<times> error option) \<times> fs" where
  "sim_keytool args fs =
     (if List.member args ''-genkeypair'' then
        (case flag_value ''-keystore'' args of
           Some k \<Rightarrow> ((''Generating 2,048 bit RSA key pair'', None), fs(k \<mapsto> [0x30, 0x82, 0x0A, 0x00]))
         | None \<Rightarrow> ((''keytool error'', Some (SysError ''exit status 1'')), fs))
      else if List.member args ''-importkeystore'' then
        (case (flag_value ''-srckeystore'' args, flag_value ''-destkeystore'' args) of
           (Some src, Some dst) \<Rightarrow>
             (case fs src of
                Some data \<Rightarrow> ((''Import command completed'', None), fs(dst \<mapsto> data))
              | None \<Rightarrow> ((''keytool error'', Some (SysError ''exit status 1'')), fs))
         | _ \<Rightarrow> ((''keytool error'', Some (SysError ''exit status 1'')), fs))
      else ((''keytool error'', Some (SysError ''exit status 1'')), fs))"

definition sim_CombinedOutput :: "faults \<Rightarrow> string list \<Rightarrow> fs \<Rightarrow> (string \<times> error option) \<times> fs" where
  "sim_CombinedOutput fl argv fs =
     (case argv of
        [] \<Rightarrow> (([], Some (SysError ''exec: no command'')), fs)
      | prog # args \<Rightarrow>
          if List.member fl (SysExec, prog)
          then (([], Some (SysError (''exec: '' @ prog @ '': executable file not found in $PATH''))), fs)
          else sim_keytool args fs)"

definition sim :: "faults \<Rightarrow> system" where
  "sim fl = \<lparr> sys_WriteFile = sim_WriteFile fl,
              sys_ReadFile = sim_ReadFile fl,
              sys_Remove = sim_Remove fl,
              sys_CombinedOutput = sim_CombinedOutput fl,
              sys_uuid = (\<lambda>n. ''00000000-0000-4000-8000-00000000000'' @ itoa (n mod 10)) \<rparr>"

definition world0 :: world where
  "world0 = \<lparr> files = Map.empty, trace = [], rand = 0 \<rparr>"

text \<open>Concrete models for the runs on the simulated system.\<close>

definition m0 :: KeystoreModel where
  "m0 = \<lparr> Password = ''old'', Base64Text = ''MIIKAA=='' \<rparr>"

definition m_corrupt :: KeystoreModel where
  "m_corrupt = \<lparr> Password = ''old'', Base64Text = ''not base64!'' \<rparr>"

definition m_empty :: KeystoreModel where
  "m_empty = \<lparr> Password = ''old'', Base64Text = [] \<rparr>"

definition m_zeros :: KeystoreModel where
  "m_zeros = \<lparr> Password = ''old'', Base64Text = ''AAAA'' \<rparr>"


definition state0 :: KeystoreResourceModel where
  "state0 = \<lparr> Id = StringValue ''00000000-0000-4000-8000-000000000000'',
              Password = StringValue ''old'', Base64Text = StringValue ''MIIKAA=='' \<rparr>"




definition rreq0 :: "KeystoreResourceModel ReadRequest" where
  "rreq0 = \<lparr> ReadRequest.State = state0 \<rparr>"


definition ureq_same :: "KeystoreResourceModel UpdateRequest" where
  "ureq_same = \<lparr> UpdateRequest.Plan = state0, UpdateRequest.State = state0 \<rparr>"

definition resp0 :: "KeystoreResourceModel Response" where
  "resp0 = \<lparr> Response.State = Some state0, Diagnostics = [] \<rparr>"




section \<open>The base64 model on known values\<close>

text \<open>The test vectors of RFC 4648, through the encoder and back through the decoder.\<close>

lemma EncodeToString_rfc4648:
  "EncodeToString [] = []"
  "EncodeToString [0x66] = ''Zg==''"
  "EncodeToString [0x66, 0x6F] = ''Zm8=''"
  "EncodeToString [0x66, 0x6F, 0x6F] = ''Zm9v''"
  "EncodeToString [0x66, 0x6F, 0x6F, 0x62] = ''Zm9vYg==''"
  "EncodeToString [0x66, 0x6F, 0x6F, 0x62, 0x61] = ''Zm9vYmE=''"
  "EncodeToString [0x66, 0x6F, 0x6F, 0x62, 0x61, 0x72] = ''Zm9vYmFy''"
  by code_simp+

lemma DecodeString_rfc4648:
  "DecodeString [] = ([], None)"
  "DecodeString ''Zg=='' = ([0x66], None)"
  "DecodeString ''Zm8='' = ([0x66, 0x6F], None)"
  "DecodeString ''Zm9v'' = ([0x66, 0x6F, 0x6F], None)"
  "DecodeString ''Zm9vYg=='' = ([0x66, 0x6F, 0x6F, 0x62], None)"
  "DecodeString ''Zm9vYmE='' = ([0x66, 0x6F, 0x6F, 0x62, 0x61], None)"
  "DecodeString ''Zm9vYmFy'' = ([0x66, 0x6F, 0x6F, 0x62, 0x61, 0x72], None)"
  by code_simp+

section \<open>The runs of the two keystore operations\<close>

text \<open>
  Each operation is a chain of calls that stops at the first failure. The case rules
  below list the possible runs, first with the worlds between the calls, then with the
  events a run leaves and the pair it returns.
\<close>

lemma UpdateKeystoreBase64_cases:
  obtains
    (decode_failed) decoded x where
      "DecodeString (Base64Text m) = (decoded, Some x)"
      "UpdateKeystoreBase64 e m p w = (([], Some x), w)"
  | (write_failed) decoded x w1 where
      "DecodeString (Base64Text m) = (decoded, None)"
      "os_WriteFile e FILENAME decoded w = (Some x, w1)"
      "UpdateKeystoreBase64 e m p w = (([], Some x), w1)"
  | (exec_failed) decoded w1 out x w2 where
      "DecodeString (Base64Text m) = (decoded, None)"
      "os_WriteFile e FILENAME decoded w = (None, w1)"
      "exec_CombinedOutput e (changePassCmd m p) w1 = ((out, Some x), w2)"
      "UpdateKeystoreBase64 e m p w =
         (([], Some (fmt_Errorf
            ''error changing password\<newline>Error: %s\<newline>Output: %s''
            [Error x, out])), w2)"
  | (remove_failed) decoded w1 out w2 x w3 where
      "DecodeString (Base64Text m) = (decoded, None)"
      "os_WriteFile e FILENAME decoded w = (None, w1)"
      "exec_CombinedOutput e (changePassCmd m p) w1 = ((out, None), w2)"
      "os_Remove e FILENAME w2 = (Some x, w3)"
      "UpdateKeystoreBase64 e m p w =
         (([], Some (fmt_Errorf
            ''error removing old keystore file after changing password\<newline>File name: %s\<newline>Error: %s''
            [FILENAME, Error x])), w3)"
  | (read_failed) decoded w1 out w2 w3 x w4 where
      "DecodeString (Base64Text m) = (decoded, None)"
      "os_WriteFile e FILENAME decoded w = (None, w1)"
      "exec_CombinedOutput e (changePassCmd m p) w1 = ((out, None), w2)"
      "os_Remove e FILENAME w2 = (None, w3)"
      "os_ReadFile e FILENAME2 w3 = (Inl x, w4)"
      "UpdateKeystoreBase64 e m p w =
         (([], Some (fmt_Errorf
            ''error reading new keystore file after changing password\<newline>File name: %s\<newline>Error: %s''
            [FILENAME2, Error x])), w4)"
  | (remove2_failed) decoded w1 out w2 w3 bytes w4 x w5 where
      "DecodeString (Base64Text m) = (decoded, None)"
      "os_WriteFile e FILENAME decoded w = (None, w1)"
      "exec_CombinedOutput e (changePassCmd m p) w1 = ((out, None), w2)"
      "os_Remove e FILENAME w2 = (None, w3)"
      "os_ReadFile e FILENAME2 w3 = (Inr bytes, w4)"
      "os_Remove e FILENAME2 w4 = (Some x, w5)"
      "UpdateKeystoreBase64 e m p w =
         (([], Some (fmt_Errorf
            ''error removing keystore file after reading keystore file. Error: %s''
            [Error x])), w5)"
  | (ok) decoded w1 out w2 w3 bytes w4 w5 where
      "DecodeString (Base64Text m) = (decoded, None)"
      "os_WriteFile e FILENAME decoded w = (None, w1)"
      "exec_CombinedOutput e (changePassCmd m p) w1 = ((out, None), w2)"
      "os_Remove e FILENAME w2 = (None, w3)"
      "os_ReadFile e FILENAME2 w3 = (Inr bytes, w4)"
      "os_Remove e FILENAME2 w4 = (None, w5)"
      "UpdateKeystoreBase64 e m p w = ((EncodeToString bytes, None), w5)"
proof -
  obtain decoded d where 0: "DecodeString (Base64Text m) = (decoded, d)"
    by (metis surj_pair)
  show thesis
  proof (cases d)
    case (Some x)
    with 0 show thesis
      by (intro decode_failed [of decoded x]) (simp_all add: UpdateKeystoreBase64_def)
  next
    case None
    note d = this
    obtain r1 w1 where 1: "os_WriteFile e FILENAME decoded w = (r1, w1)"
      by (metis surj_pair)
    show thesis
    proof (cases r1)
      case (Some x)
      with 0 d 1 show thesis
        by (intro write_failed [of decoded x w1]) (simp_all add: UpdateKeystoreBase64_def)
    next
      case None
      note r1 = this
      obtain out r2 w2 where 2: "exec_CombinedOutput e (changePassCmd m p) w1 = ((out, r2), w2)"
        by (metis surj_pair)
      show thesis
      proof (cases r2)
        case (Some x)
        with 0 d 1 r1 2 show thesis
          by (intro exec_failed [of decoded w1 out x w2]) (simp_all add: UpdateKeystoreBase64_def)
      next
        case None
        note r2 = this
        obtain r3 w3 where 3: "os_Remove e FILENAME w2 = (r3, w3)"
          by (metis surj_pair)
        show thesis
        proof (cases r3)
          case (Some x)
          with 0 d 1 r1 2 r2 3 show thesis
            by (intro remove_failed [of decoded w1 out w2 x w3])
               (simp_all add: UpdateKeystoreBase64_def)
        next
          case None
          note r3 = this
          obtain r4 w4 where 4: "os_ReadFile e FILENAME2 w3 = (r4, w4)"
            by (metis surj_pair)
          show thesis
          proof (cases r4)
            case (Inl x)
            with 0 d 1 r1 2 r2 3 r3 4 show thesis
              by (intro read_failed [of decoded w1 out w2 w3 x w4])
                 (simp_all add: UpdateKeystoreBase64_def)
          next
            case (Inr bytes)
            note r4 = this
            obtain r5 w5 where 5: "os_Remove e FILENAME2 w4 = (r5, w5)"
              by (metis surj_pair)
            show thesis
            proof (cases r5)
              case (Some x)
              with 0 d 1 r1 2 r2 3 r3 4 r4 5 show thesis
                by (intro remove2_failed [of decoded w1 out w2 w3 bytes w4 x w5])
                   (simp_all add: UpdateKeystoreBase64_def)
            next
              case None
              with 0 d 1 r1 2 r2 3 r3 4 r4 5 show thesis
                by (intro ok [of decoded w1 out w2 w3 bytes w4 w5])
                   (simp_all add: UpdateKeystoreBase64_def)
            qed
          qed
        qed
      qed
    qed
  qed
qed

lemma trace_os_WriteFile:
  "os_WriteFile e name data w = (r, w') \<Longrightarrow> trace w' = trace w @ [WriteFile name data r]"
  by (auto simp: os_WriteFile_def split: prod.splits)

lemma trace_os_ReadFile:
  "os_ReadFile e name w = (r, w') \<Longrightarrow> trace w' = trace w @ [ReadFile name r]"
  by (auto simp: os_ReadFile_def Let_def)

lemma trace_os_Remove:
  "os_Remove e name w = (r, w') \<Longrightarrow> trace w' = trace w @ [Remove name r]"
  by (auto simp: os_Remove_def split: prod.splits)

lemma trace_exec_CombinedOutput:
  "exec_CombinedOutput e argv w = ((out, r), w') \<Longrightarrow>
   trace w' = trace w @ [CombinedOutput argv out r]"
  by (auto simp: exec_CombinedOutput_def split: prod.splits)

lemmas trace_os = trace_os_WriteFile trace_os_ReadFile trace_os_Remove trace_exec_CombinedOutput

lemma new_events_append: "trace w' = trace w @ evs \<Longrightarrow> new_events w w' = evs"
  by (simp add: new_events_def)

lemma sublist_ConsI: "sublist xs ys \<Longrightarrow> sublist xs (y # ys)"
  by (simp add: sublist_Cons_right)

lemma sublist_app_leftI: "sublist xs (xs @ ys)"
  by (metis append_Nil sublist_appendI)

lemma sublist_app_rightI: "sublist xs ys \<Longrightarrow> sublist xs (zs @ ys)"
  unfolding sublist_def by (metis append.assoc)

lemmas sublist_msg = sublist_ConsI sublist_app_leftI sublist_app_rightI

lemma CreateKeystoreBase64_cases:
  obtains
    (exec_failed) out x w1 where
      "exec_CombinedOutput e (create_cmd m) w = ((out, Some x), w1)"
      "CreateKeystoreBase64 e m w =
         (([], Some (fmt_Errorf
            ''error after executing command to produce keystore file. Is the keytool installed on the machine?\<newline>Error:%s\<newline>Output: %s''
            [Error x, out])), w1)"
  | (read_failed) out w1 x w2 where
      "exec_CombinedOutput e (create_cmd m) w = ((out, None), w1)"
      "os_ReadFile e FILENAME w1 = (Inl x, w2)"
      "CreateKeystoreBase64 e m w =
         (([], Some (fmt_Errorf
            ''error reading keystore file after producing keystore file\<newline>Error: %s''
            [Error x])), w2)"
  | (remove_failed) out w1 bytes w2 x w3 where
      "exec_CombinedOutput e (create_cmd m) w = ((out, None), w1)"
      "os_ReadFile e FILENAME w1 = (Inr bytes, w2)"
      "os_Remove e FILENAME w2 = (Some x, w3)"
      "CreateKeystoreBase64 e m w =
         (([], Some (fmt_Errorf
            ''error removing keystore file after reading keystore file\<newline>Error: %s''
            [Error x])), w3)"
  | (ok) out w1 bytes w2 w3 where
      "exec_CombinedOutput e (create_cmd m) w = ((out, None), w1)"
      "os_ReadFile e FILENAME w1 = (Inr bytes, w2)"
      "os_Remove e FILENAME w2 = (None, w3)"
      "CreateKeystoreBase64 e m w = ((EncodeToString bytes, None), w3)"
proof -
  obtain out r w1 where 1: "exec_CombinedOutput e (create_cmd m) w = ((out, r), w1)"
    by (metis surj_pair)
  show thesis
  proof (cases r)
    case (Some x)
    with 1 show thesis
      by (intro exec_failed [of out x w1]) (simp_all add: CreateKeystoreBase64_def)
  next
    case None
    note r = this
    obtain rr w2 where 2: "os_ReadFile e FILENAME w1 = (rr, w2)"
      by (metis surj_pair)
    show thesis
    proof (cases rr)
      case (Inl x)
      with 1 2 r show thesis
        by (intro read_failed [of out w1 x w2]) (simp_all add: CreateKeystoreBase64_def)
    next
      case (Inr bytes)
      note rr = this
      obtain rm w3 where 3: "os_Remove e FILENAME w2 = (rm, w3)"
        by (metis surj_pair)
      show thesis
      proof (cases rm)
        case (Some x)
        with 1 2 3 r rr show thesis
          by (intro remove_failed [of out w1 bytes w2 x w3]) (simp_all add: CreateKeystoreBase64_def)
      next
        case None
        with 1 2 3 r rr show thesis
          by (intro ok [of out w1 bytes w2 w3]) (simp_all add: CreateKeystoreBase64_def)
      qed
    qed
  qed
qed

lemma CreateKeystoreBase64_runs:
  obtains
    (exec_failed) out x where
      "new_events w (snd (CreateKeystoreBase64 e m w)) = [CombinedOutput (create_cmd m) out (Some x)]"
      "fst (CreateKeystoreBase64 e m w) =
         ([], Some (fmt_Errorf
            ''error after executing command to produce keystore file. Is the keytool installed on the machine?\<newline>Error:%s\<newline>Output: %s''
            [Error x, out]))"
  | (read_failed) out x where
      "new_events w (snd (CreateKeystoreBase64 e m w)) =
         [CombinedOutput (create_cmd m) out None, ReadFile FILENAME (Inl x)]"
      "fst (CreateKeystoreBase64 e m w) =
         ([], Some (fmt_Errorf
            ''error reading keystore file after producing keystore file\<newline>Error: %s''
            [Error x]))"
  | (remove_failed) out bytes x where
      "new_events w (snd (CreateKeystoreBase64 e m w)) =
         [CombinedOutput (create_cmd m) out None, ReadFile FILENAME (Inr bytes),
          Remove FILENAME (Some x)]"
      "fst (CreateKeystoreBase64 e m w) =
         ([], Some (fmt_Errorf
            ''error removing keystore file after reading keystore file\<newline>Error: %s''
            [Error x]))"
  | (ok) out bytes where
      "new_events w (snd (CreateKeystoreBase64 e m w)) =
         [CombinedOutput (create_cmd m) out None, ReadFile FILENAME (Inr bytes),
          Remove FILENAME None]"
      "fst (CreateKeystoreBase64 e m w) = (EncodeToString bytes, None)"
proof (cases rule: CreateKeystoreBase64_cases [of e m w])
  case (exec_failed out x w1)
  then show thesis
    by (intro that(1) [of out x]) (simp_all add: new_events_append trace_os)
next
  case (read_failed out w1 x w2)
  then show thesis
    by (intro that(2) [of out x]) (simp_all add: new_events_append trace_os)
next
  case (remove_failed out w1 bytes w2 x w3)
  then show thesis
    by (intro that(3) [of out bytes x]) (simp_all add: new_events_append trace_os)
next
  case (ok out w1 bytes w2 w3)
  then show thesis
    by (intro that(4) [of out bytes]) (simp_all add: new_events_append trace_os)
qed

lemma UpdateKeystoreBase64_runs:
  obtains
    (decode_failed) decoded x where
      "DecodeString (Base64Text m) = (decoded, Some x)"
      "UpdateKeystoreBase64 e m p w = (([], Some x), w)"
  | (write_failed) decoded x where
      "DecodeString (Base64Text m) = (decoded, None)"
      "new_events w (snd (UpdateKeystoreBase64 e m p w)) = [WriteFile FILENAME decoded (Some x)]"
      "fst (UpdateKeystoreBase64 e m p w) = ([], Some x)"
  | (exec_failed) decoded out x where
      "DecodeString (Base64Text m) = (decoded, None)"
      "new_events w (snd (UpdateKeystoreBase64 e m p w)) =
         [WriteFile FILENAME decoded None, CombinedOutput (changePassCmd m p) out (Some x)]"
      "fst (UpdateKeystoreBase64 e m p w) =
         ([], Some (fmt_Errorf
            ''error changing password\<newline>Error: %s\<newline>Output: %s''
            [Error x, out]))"
  | (remove_failed) decoded out x where
      "DecodeString (Base64Text m) = (decoded, None)"
      "new_events w (snd (UpdateKeystoreBase64 e m p w)) =
         [WriteFile FILENAME decoded None, CombinedOutput (changePassCmd m p) out None,
          Remove FILENAME (Some x)]"
      "fst (UpdateKeystoreBase64 e m p w) =
         ([], Some (fmt_Errorf
            ''error removing old keystore file after changing password\<newline>File name: %s\<newline>Error: %s''
            [FILENAME, Error x]))"
  | (read_failed) decoded out x where
      "DecodeString (Base64Text m) = (decoded, None)"
      "new_events w (snd (UpdateKeystoreBase64 e m p w)) =
         [WriteFile FILENAME decoded None, CombinedOutput (changePassCmd m p) out None,
          Remove FILENAME None, ReadFile FILENAME2 (Inl x)]"
      "fst (UpdateKeystoreBase64 e m p w) =
         ([], Some (fmt_Errorf
            ''error reading new keystore file after changing password\<newline>File name: %s\<newline>Error: %s''
            [FILENAME2, Error x]))"
  | (remove2_failed) decoded out bytes x where
      "DecodeString (Base64Text m) = (decoded, None)"
      "new_events w (snd (UpdateKeystoreBase64 e m p w)) =
         [WriteFile FILENAME decoded None, CombinedOutput (changePassCmd m p) out None,
          Remove FILENAME None, ReadFile FILENAME2 (Inr bytes), Remove FILENAME2 (Some x)]"
      "fst (UpdateKeystoreBase64 e m p w) =
         ([], Some (fmt_Errorf
            ''error removing keystore file after reading keystore file. Error: %s''
            [Error x]))"
  | (ok) decoded out bytes where
      "DecodeString (Base64Text m) = (decoded, None)"
      "new_events w (snd (UpdateKeystoreBase64 e m p w)) =
         [WriteFile FILENAME decoded None, CombinedOutput (changePassCmd m p) out None,
          Remove FILENAME None, ReadFile FILENAME2 (Inr bytes), Remove FILENAME2 None]"
      "fst (UpdateKeystoreBase64 e m p w) = (EncodeToString bytes, None)"
proof (cases rule: UpdateKeystoreBase64_cases [of m e p w])
  case (decode_failed decoded x)
  then show thesis
    by (intro that(1) [of decoded x]) simp_all
next
  case (write_failed decoded x w1)
  then show thesis
    by (intro that(2) [of decoded x]) (simp_all add: new_events_append trace_os)
next
  case (exec_failed decoded w1 out x w2)
  then show thesis
    by (intro that(3) [of decoded out x]) (simp_all add: new_events_append trace_os)
next
  case (remove_failed decoded w1 out w2 x w3)
  then show thesis
    by (intro that(4) [of decoded out x]) (simp_all add: new_events_append trace_os)
next
  case (read_failed decoded w1 out w2 w3 x w4)
  then show thesis
    by (intro that(5) [of decoded out x]) (simp_all add: new_events_append trace_os)
next
  case (remove2_failed decoded w1 out w2 w3 bytes w4 x w5)
  then show thesis
    by (intro that(6) [of decoded out bytes x]) (simp_all add: new_events_append trace_os)
next
  case (ok decoded w1 out w2 w3 bytes w4 w5)
  then show thesis
    by (intro that(7) [of decoded out bytes]) (simp_all add: new_events_append trace_os)
qed

lemma new_events_same [simp]: "new_events w w = []"
  by (simp add: new_events_def)

lemma Create_error_empty:
  "snd (fst (CreateKeystoreBase64 e m w)) \<noteq> None \<longrightarrow> fst (fst (CreateKeystoreBase64 e m w)) = []"
  by (cases rule: CreateKeystoreBase64_runs [of w e m]) simp_all

lemma Create_failure_error:
  "(first_failure (new_events w (snd (CreateKeystoreBase64 e m w))) \<noteq> None) =
   (snd (fst (CreateKeystoreBase64 e m w)) \<noteq> None)"
  by (cases rule: CreateKeystoreBase64_runs [of w e m]) simp_all

lemma Create_error_descriptive:
  "first_failure (new_events w (snd (CreateKeystoreBase64 e m w))) = Some x \<Longrightarrow>
   \<exists>y. snd (fst (CreateKeystoreBase64 e m w)) = Some y \<and> sublist (Error x) (Error y)"
  by (cases rule: CreateKeystoreBase64_runs [of w e m])
     (auto simp: fmt_Errorf_def intro!: sublist_msg)

lemma Update_error_empty:
  "snd (fst (UpdateKeystoreBase64 e m p w)) \<noteq> None \<longrightarrow> fst (fst (UpdateKeystoreBase64 e m p w)) = []"
  by (cases rule: UpdateKeystoreBase64_runs [of m e p w]) simp_all

lemma Update_failure_error:
  "(snd (DecodeString (Base64Text m)) \<noteq> None \<or>
    first_failure (new_events w (snd (UpdateKeystoreBase64 e m p w))) \<noteq> None) =
   (snd (fst (UpdateKeystoreBase64 e m p w)) \<noteq> None)"
  by (cases rule: UpdateKeystoreBase64_runs [of m e p w]) simp_all

lemma Update_error_descriptive:
  "first_failure (new_events w (snd (UpdateKeystoreBase64 e m p w))) = Some x \<Longrightarrow>
   \<exists>y. snd (fst (UpdateKeystoreBase64 e m p w)) = Some y \<and> sublist (Error x) (Error y)"
  by (cases rule: UpdateKeystoreBase64_runs [of m e p w])
     (auto simp: fmt_Errorf_def FILENAME_def FILENAME2_def intro!: sublist_msg)

text \<open>An error of the decoder is always a \<open>CorruptInputError\<close>.\<close>

lemma after_padding_error:
  "snd (after_padding j dbuf si cs) = Some x \<Longrightarrow> \<exists>n. x = CorruptInputError n"
  by (auto simp: after_padding_def split: prod.splits list.splits)

lemma Decode_error:
  "snd (Decode j dbuf si cs) = Some x \<Longrightarrow> \<exists>n. x = CorruptInputError n"
proof (induction cs arbitrary: j dbuf si)
  case Nil
  then show ?case by (auto split: if_splits)
next
  case (Cons c cs)
  show ?case
  proof (cases "decodeMap c \<noteq> 0xFF")
    case True
    with Cons.prems Cons.IH [of 0 "[]" "Suc si"]
      Cons.IH [of "Suc j" "dbuf @ [decodeMap c]" "Suc si"]
    show ?thesis
      by (auto split: if_splits prod.splits)
  next
    case False
    with Cons show ?thesis
      by (auto split: if_splits prod.splits list.splits dest: after_padding_error)
  qed
qed

lemma DecodeString_error:
  "snd (DecodeString s) = Some x \<Longrightarrow> \<exists>n. x = CorruptInputError n"
  unfolding DecodeString_def by (rule Decode_error)

section \<open>The runs in terms of the system\<close>

text \<open>
  The same runs, stated on the system itself: which call is made on which files, what the
  system answers, and the world the run leaves. A run in which every call succeeds
  returns the encoding of the bytes the system read from the second file.
\<close>

lemma UpdateKeystoreBase64_ok:
  assumes "DecodeString (Base64Text m) = (decoded, None)"
    and "sys_WriteFile e FILENAME decoded (files w) = (None, fs1)"
    and "sys_CombinedOutput e (changePassCmd m p) fs1 = ((out, None), fs2)"
    and "sys_Remove e FILENAME fs2 = (None, fs3)"
    and "sys_ReadFile e FILENAME2 fs3 = Inr bytes"
    and "sys_Remove e FILENAME2 fs3 = (None, fs4)"
  shows "UpdateKeystoreBase64 e m p w =
    ((EncodeToString bytes, None),
     w\<lparr>files := fs4,
       trace := trace w @
         [WriteFile FILENAME decoded None,
          CombinedOutput (changePassCmd m p) out None,
          Remove FILENAME None,
          ReadFile FILENAME2 (Inr bytes),
          Remove FILENAME2 None]\<rparr>)"
  using assms
  by (simp add: UpdateKeystoreBase64_def os_WriteFile_def exec_CombinedOutput_def
      os_Remove_def os_ReadFile_def Let_def)

lemma new_events_upd [simp]:
  "new_events w (w\<lparr>files := fs, trace := trace w @ evs\<rparr>) = evs"
  by (simp add: new_events_def)

lemma UpdateKeystoreBase64_sys_cases:
  obtains
    (decode_failed) decoded x where
      "DecodeString (Base64Text m) = (decoded, Some x)"
      "UpdateKeystoreBase64 e m p w = (([], Some x), w)"
  | (write_failed) decoded x fs1 where
      "DecodeString (Base64Text m) = (decoded, None)"
      "sys_WriteFile e FILENAME decoded (files w) = (Some x, fs1)"
      "snd (UpdateKeystoreBase64 e m p w) =
         w\<lparr>files := fs1, trace := trace w @ [WriteFile FILENAME decoded (Some x)]\<rparr>"
  | (exec_failed) decoded fs1 out x fs2 where
      "DecodeString (Base64Text m) = (decoded, None)"
      "sys_WriteFile e FILENAME decoded (files w) = (None, fs1)"
      "sys_CombinedOutput e (changePassCmd m p) fs1 = ((out, Some x), fs2)"
      "snd (UpdateKeystoreBase64 e m p w) =
         w\<lparr>files := fs2, trace := trace w @
           [WriteFile FILENAME decoded None,
            CombinedOutput (changePassCmd m p) out (Some x)]\<rparr>"
  | (remove_failed) decoded fs1 out fs2 x fs3 where
      "DecodeString (Base64Text m) = (decoded, None)"
      "sys_WriteFile e FILENAME decoded (files w) = (None, fs1)"
      "sys_CombinedOutput e (changePassCmd m p) fs1 = ((out, None), fs2)"
      "sys_Remove e FILENAME fs2 = (Some x, fs3)"
      "snd (UpdateKeystoreBase64 e m p w) =
         w\<lparr>files := fs3, trace := trace w @
           [WriteFile FILENAME decoded None,
            CombinedOutput (changePassCmd m p) out None,
            Remove FILENAME (Some x)]\<rparr>"
  | (read_failed) decoded fs1 out fs2 fs3 x where
      "DecodeString (Base64Text m) = (decoded, None)"
      "sys_WriteFile e FILENAME decoded (files w) = (None, fs1)"
      "sys_CombinedOutput e (changePassCmd m p) fs1 = ((out, None), fs2)"
      "sys_Remove e FILENAME fs2 = (None, fs3)"
      "sys_ReadFile e FILENAME2 fs3 = Inl x"
      "snd (UpdateKeystoreBase64 e m p w) =
         w\<lparr>files := fs3, trace := trace w @
           [WriteFile FILENAME decoded None,
            CombinedOutput (changePassCmd m p) out None,
            Remove FILENAME None,
            ReadFile FILENAME2 (Inl x)]\<rparr>"
  | (remove2_failed) decoded fs1 out fs2 fs3 bytes x fs4 where
      "DecodeString (Base64Text m) = (decoded, None)"
      "sys_WriteFile e FILENAME decoded (files w) = (None, fs1)"
      "sys_CombinedOutput e (changePassCmd m p) fs1 = ((out, None), fs2)"
      "sys_Remove e FILENAME fs2 = (None, fs3)"
      "sys_ReadFile e FILENAME2 fs3 = Inr bytes"
      "sys_Remove e FILENAME2 fs3 = (Some x, fs4)"
      "snd (UpdateKeystoreBase64 e m p w) =
         w\<lparr>files := fs4, trace := trace w @
           [WriteFile FILENAME decoded None,
            CombinedOutput (changePassCmd m p) out None,
            Remove FILENAME None,
            ReadFile FILENAME2 (Inr bytes),
            Remove FILENAME2 (Some x)]\<rparr>"
  | (ok) decoded fs1 out fs2 fs3 bytes fs4 where
      "DecodeString (Base64Text m) = (decoded, None)"
      "sys_WriteFile e FILENAME decoded (files w) = (None, fs1)"
      "sys_CombinedOutput e (changePassCmd m p) fs1 = ((out, None), fs2)"
      "sys_Remove e FILENAME fs2 = (None, fs3)"
      "sys_ReadFile e FILENAME2 fs3 = Inr bytes"
      "sys_Remove e FILENAME2 fs3 = (None, fs4)"
      "UpdateKeystoreBase64 e m p w =
         ((EncodeToString bytes, None),
          w\<lparr>files := fs4, trace := trace w @
            [WriteFile FILENAME decoded None,
             CombinedOutput (changePassCmd m p) out None,
             Remove FILENAME None,
             ReadFile FILENAME2 (Inr bytes),
             Remove FILENAME2 None]\<rparr>)"
proof -
  note defs = UpdateKeystoreBase64_def os_WriteFile_def exec_CombinedOutput_def
    os_Remove_def os_ReadFile_def Let_def
  obtain decoded d where 0: "DecodeString (Base64Text m) = (decoded, d)"
    by (metis surj_pair)
  show thesis
  proof (cases d)
    case (Some x)
    with 0 show thesis
      by (intro decode_failed [of decoded x]) (simp_all add: defs)
  next
    case None
    note d = this
    obtain r1 fs1 where 1: "sys_WriteFile e FILENAME decoded (files w) = (r1, fs1)"
      by (metis surj_pair)
    show thesis
    proof (cases r1)
      case (Some x)
      with 0 d 1 show thesis
        by (intro write_failed [of decoded x fs1]) (simp_all add: defs)
    next
      case None
      note r1 = this
      obtain out r2 fs2 where 2: "sys_CombinedOutput e (changePassCmd m p) fs1 = ((out, r2), fs2)"
        by (metis surj_pair)
      show thesis
      proof (cases r2)
        case (Some x)
        with 0 d 1 r1 2 show thesis
          by (intro exec_failed [of decoded fs1 out x fs2]) (simp_all add: defs)
      next
        case None
        note r2 = this
        obtain r3 fs3 where 3: "sys_Remove e FILENAME fs2 = (r3, fs3)"
          by (metis surj_pair)
        show thesis
        proof (cases r3)
          case (Some x)
          with 0 d 1 r1 2 r2 3 show thesis
            by (intro remove_failed [of decoded fs1 out fs2 x fs3]) (simp_all add: defs)
        next
          case None
          note r3 = this
          show thesis
          proof (cases "sys_ReadFile e FILENAME2 fs3")
            case (Inl x)
            with 0 d 1 r1 2 r2 3 r3 show thesis
              by (intro read_failed [of decoded fs1 out fs2 fs3 x]) (simp_all add: defs)
          next
            case (Inr bytes)
            note r4 = this
            obtain r5 fs4 where 5: "sys_Remove e FILENAME2 fs3 = (r5, fs4)"
              by (metis surj_pair)
            show thesis
            proof (cases r5)
              case (Some x)
              with 0 d 1 r1 2 r2 3 r3 r4 5 show thesis
                by (intro remove2_failed [of decoded fs1 out fs2 fs3 bytes x fs4])
                   (simp_all add: defs)
            next
              case None
              with 0 d 1 r1 2 r2 3 r3 r4 5 show thesis
                by (intro ok [of decoded fs1 out fs2 fs3 bytes fs4]) (simp_all add: defs)
            qed
          qed
        qed
      qed
    qed
  qed
qed

lemma replay_UpdateKeystoreBase64:
  "replay e (new_events w (snd (UpdateKeystoreBase64 e m p w))) (files w) =
     Some (files (snd (UpdateKeystoreBase64 e m p w)))"
  by (cases rule: UpdateKeystoreBase64_sys_cases [of m e p w]) simp_all

lemma UpdateKeystoreBase64_ok_inv:
  assumes "snd (fst (UpdateKeystoreBase64 e m p w)) = None"
  shows "\<exists>decoded fs1 out fs2 fs3 bytes fs4.
     DecodeString (Base64Text m) = (decoded, None) \<and>
     sys_WriteFile e FILENAME decoded (files w) = (None, fs1) \<and>
     sys_CombinedOutput e (changePassCmd m p) fs1 = ((out, None), fs2) \<and>
     sys_Remove e FILENAME fs2 = (None, fs3) \<and>
     sys_ReadFile e FILENAME2 fs3 = Inr bytes \<and>
     sys_Remove e FILENAME2 fs3 = (None, fs4)"
proof (cases rule: UpdateKeystoreBase64_runs [of m e p w])
  case (ok decoded out bytes)
  then show ?thesis
    by (cases rule: UpdateKeystoreBase64_sys_cases [of m e p w]) auto
qed (use assms in simp_all)

lemma CreateKeystoreBase64_sys_cases:
  obtains
    (exec_failed) out x fs1 where
      "sys_CombinedOutput e (create_cmd m) (files w) = ((out, Some x), fs1)"
      "snd (CreateKeystoreBase64 e m w) =
         w\<lparr>files := fs1, trace := trace w @ [CombinedOutput (create_cmd m) out (Some x)]\<rparr>"
  | (read_failed) out fs1 x where
      "sys_CombinedOutput e (create_cmd m) (files w) = ((out, None), fs1)"
      "sys_ReadFile e FILENAME fs1 = Inl x"
      "snd (CreateKeystoreBase64 e m w) =
         w\<lparr>files := fs1, trace := trace w @
           [CombinedOutput (create_cmd m) out None, ReadFile FILENAME (Inl x)]\<rparr>"
  | (remove_failed) out fs1 bytes x fs2 where
      "sys_CombinedOutput e (create_cmd m) (files w) = ((out, None), fs1)"
      "sys_ReadFile e FILENAME fs1 = Inr bytes"
      "sys_Remove e FILENAME fs1 = (Some x, fs2)"
      "snd (CreateKeystoreBase64 e m w) =
         w\<lparr>files := fs2, trace := trace w @
           [CombinedOutput (create_cmd m) out None, ReadFile FILENAME (Inr bytes),
            Remove FILENAME (Some x)]\<rparr>"
  | (ok) out fs1 bytes fs2 where
      "sys_CombinedOutput e (create_cmd m) (files w) = ((out, None), fs1)"
      "sys_ReadFile e FILENAME fs1 = Inr bytes"
      "sys_Remove e FILENAME fs1 = (None, fs2)"
      "CreateKeystoreBase64 e m w =
         ((EncodeToString bytes, None),
          w\<lparr>files := fs2, trace := trace w @
            [CombinedOutput (create_cmd m) out None, ReadFile FILENAME (Inr bytes),
             Remove FILENAME None]\<rparr>)"
proof -
  note defs = CreateKeystoreBase64_def exec_CombinedOutput_def os_Remove_def os_ReadFile_def
    Let_def
  obtain out r fs1 where 1: "sys_CombinedOutput e (create_cmd m) (files w) = ((out, r), fs1)"
    by (metis surj_pair)
  show thesis
  proof (cases r)
    case (Some x)
    with 1 show thesis
      by (intro exec_failed [of out x fs1]) (simp_all add: defs)
  next
    case None
    note r = this
    show thesis
    proof (cases "sys_ReadFile e FILENAME fs1")
      case (Inl x)
      with 1 r show thesis
        by (intro read_failed [of out fs1 x]) (simp_all add: defs)
    next
      case (Inr bytes)
      note rr = this
      obtain rm fs2 where 3: "sys_Remove e FILENAME fs1 = (rm, fs2)"
        by (metis surj_pair)
      show thesis
      proof (cases rm)
        case (Some x)
        with 1 r rr 3 show thesis
          by (intro remove_failed [of out fs1 bytes x fs2]) (simp_all add: defs)
      next
        case None
        with 1 r rr 3 show thesis
          by (intro ok [of out fs1 bytes fs2]) (simp_all add: defs)
      qed
    qed
  qed
qed

lemma replay_CreateKeystoreBase64:
  "replay e (new_events w (snd (CreateKeystoreBase64 e m w))) (files w) =
     Some (files (snd (CreateKeystoreBase64 e m w)))"
  by (cases rule: CreateKeystoreBase64_sys_cases [of e m w]) simp_all

lemma CreateKeystoreBase64_first_call:
  "\<exists>rest. new_events w (snd (CreateKeystoreBase64 e m w)) =
      CombinedOutput (create_cmd m)
        (fst (fst (sys_CombinedOutput e (create_cmd m) (files w))))
        (snd (fst (sys_CombinedOutput e (create_cmd m) (files w)))) # rest
    \<and> filter is_CombinedOutput rest = []"
  by (cases rule: CreateKeystoreBase64_sys_cases [of e m w]) simp_all

lemma UpdateKeystoreBase64_calls_prefix:
  "prefix (map call_of (new_events w (snd (UpdateKeystoreBase64 e m p w))))
        [CallWriteFile FILENAME (fst (DecodeString (Base64Text m))),
         CallCombinedOutput (changePassCmd m p),
         CallRemove FILENAME,
         CallReadFile FILENAME2,
         CallRemove FILENAME2]"
  by (cases rule: UpdateKeystoreBase64_runs [of m e p w]) simp_all

lemma UpdateKeystoreBase64_write_called:
  assumes "DecodeString (Base64Text m) = (decoded, None)"
  shows "\<exists>rest. new_events w (snd (UpdateKeystoreBase64 e m p w)) =
      WriteFile FILENAME decoded (fst (sys_WriteFile e FILENAME decoded (files w))) # rest"
  using assms
  by (cases rule: UpdateKeystoreBase64_sys_cases [of m e p w]) simp_all

lemma UpdateKeystoreBase64_exec_called:
  assumes "DecodeString (Base64Text m) = (decoded, None)"
    and "sys_WriteFile e FILENAME decoded (files w) = (None, fs1)"
  shows "\<exists>rest. new_events w (snd (UpdateKeystoreBase64 e m p w)) =
      WriteFile FILENAME decoded None #
      CombinedOutput (changePassCmd m p)
        (fst (fst (sys_CombinedOutput e (changePassCmd m p) fs1)))
        (snd (fst (sys_CombinedOutput e (changePassCmd m p) fs1))) # rest"
  using assms
  by (cases rule: UpdateKeystoreBase64_sys_cases [of m e p w]) simp_all

section \<open>The runs of the resource operations\<close>












section \<open>The claims\<close>

text \<open>
  C1. Whenever a step of \<open>CreateKeystoreBase64\<close> or \<open>UpdateKeystoreBase64\<close> fails
  (a call recorded with an error: the \<open>keytool\<close> subprocess missing or exiting
  non-zero, a failed read, write or remove of a temp file; for the update also a base64
  decode error), the operation returns the empty string with a non-nil error; no run
  returns a non-empty string together with an error; and the returned error is
  descriptive: its text contains the text of the error of the step that failed (a decode
  error is returned as it is).
\<close>

theorem keystore_failures_return_empty_string:
  "(first_failure (new_events w (snd (CreateKeystoreBase64 e m w))) \<noteq> None \<longrightarrow>
      fst (fst (CreateKeystoreBase64 e m w)) = [] \<and>
      snd (fst (CreateKeystoreBase64 e m w)) \<noteq> None)
   \<and> (snd (DecodeString (Base64Text m)) \<noteq> None \<or>
        first_failure (new_events w (snd (UpdateKeystoreBase64 e m p w))) \<noteq> None \<longrightarrow>
      fst (fst (UpdateKeystoreBase64 e m p w)) = [] \<and>
      snd (fst (UpdateKeystoreBase64 e m p w)) \<noteq> None)
   \<and> (snd (fst (CreateKeystoreBase64 e m w)) \<noteq> None \<longrightarrow>
      fst (fst (CreateKeystoreBase64 e m w)) = [])
   \<and> (snd (fst (UpdateKeystoreBase64 e m p w)) \<noteq> None \<longrightarrow>
      fst (fst (UpdateKeystoreBase64 e m p w)) = [])
   \<and> (\<forall>x. first_failure (new_events w (snd (CreateKeystoreBase64 e m w))) = Some x \<longrightarrow>
      (\<exists>y. snd (fst (CreateKeystoreBase64 e m w)) = Some y \<and> sublist (Error x) (Error y)))
   \<and> (\<forall>x. first_failure (new_events w (snd (UpdateKeystoreBase64 e m p w))) = Some x \<longrightarrow>
      (\<exists>y. snd (fst (UpdateKeystoreBase64 e m p w)) = Some y \<and> sublist (Error x) (Error y)))
   \<and> (\<forall>x. snd (DecodeString (Base64Text m)) = Some x \<longrightarrow>
      snd (fst (UpdateKeystoreBase64 e m p w)) = Some x)"
proof -
  have decode: "\<forall>x. snd (DecodeString (Base64Text m)) = Some x \<longrightarrow>
      snd (fst (UpdateKeystoreBase64 e m p w)) = Some x"
    by (cases rule: UpdateKeystoreBase64_runs [of m e p w]) simp_all
  show ?thesis
    using Create_error_empty [of e m w] Create_failure_error [of w e m]
      Update_error_empty [of e m p w] Update_failure_error [of m w e p]
      Create_error_descriptive [of w e m] Update_error_descriptive [of w e m p] decode
    by blast
qed

theorem keystore_failures_return_empty_string_witness:
  "first_failure (new_events world0
      (snd (CreateKeystoreBase64 (sim [(SysExec, ''keytool'')]) m0 world0))) =
     Some (SysError ''exec: keytool: executable file not found in $PATH'')
   \<and> fst (fst (CreateKeystoreBase64 (sim [(SysExec, ''keytool'')]) m0 world0)) = []
   \<and> (\<exists>y. snd (fst (CreateKeystoreBase64 (sim [(SysExec, ''keytool'')]) m0 world0)) = Some y \<and>
          sublist ''exec: keytool: executable file not found in $PATH'' (Error y))
   \<and> first_failure (new_events world0
      (snd (UpdateKeystoreBase64 (sim [(SysExec, ''keytool'')]) m0 ''new'' world0))) =
     Some (SysError ''exec: keytool: executable file not found in $PATH'')
   \<and> fst (fst (UpdateKeystoreBase64 (sim [(SysExec, ''keytool'')]) m0 ''new'' world0)) = []
   \<and> (\<exists>y. snd (fst (UpdateKeystoreBase64 (sim [(SysExec, ''keytool'')]) m0 ''new'' world0)) = Some y \<and>
          sublist ''exec: keytool: executable file not found in $PATH'' (Error y))
   \<and> snd (DecodeString (Base64Text m_corrupt)) = Some (CorruptInputError 3)
   \<and> fst (UpdateKeystoreBase64 (sim []) m_corrupt ''new'' world0) =
        ([], Some (CorruptInputError 3))"
proof -
  have c: "first_failure (new_events world0
      (snd (CreateKeystoreBase64 (sim [(SysExec, ''keytool'')]) m0 world0))) =
     Some (SysError ''exec: keytool: executable file not found in $PATH'')"
    by code_simp
  have u: "first_failure (new_events world0
      (snd (UpdateKeystoreBase64 (sim [(SysExec, ''keytool'')]) m0 ''new'' world0))) =
     Some (SysError ''exec: keytool: executable file not found in $PATH'')"
    by code_simp
  have d: "snd (DecodeString (Base64Text m_corrupt)) = Some (CorruptInputError 3)"
    by code_simp
  note t = keystore_failures_return_empty_string
    [of world0 "sim [(SysExec, ''keytool'')]" m0 "''new''"]
  have 1: "fst (fst (CreateKeystoreBase64 (sim [(SysExec, ''keytool'')]) m0 world0)) = []"
    using c t by simp
  have 2: "\<exists>y. snd (fst (CreateKeystoreBase64 (sim [(SysExec, ''keytool'')]) m0 world0)) = Some y \<and>
      sublist (Error (SysError ''exec: keytool: executable file not found in $PATH'')) (Error y)"
    using c t by blast
  have 3: "fst (fst (UpdateKeystoreBase64 (sim [(SysExec, ''keytool'')]) m0 ''new'' world0)) = []"
    using u t by simp
  have 4: "\<exists>y. snd (fst (UpdateKeystoreBase64 (sim [(SysExec, ''keytool'')]) m0 ''new'' world0)) = Some y \<and>
      sublist (Error (SysError ''exec: keytool: executable file not found in $PATH'')) (Error y)"
    using u t by blast
  have 5: "fst (UpdateKeystoreBase64 (sim []) m_corrupt ''new'' world0) =
        ([], Some (CorruptInputError 3))"
    using d keystore_failures_return_empty_string [of world0 "sim []" m_corrupt "''new''"]
    by (metis option.distinct(1) prod.collapse)
  from 2 have c2: "\<exists>y. snd (fst (CreateKeystoreBase64 (sim [(SysExec, ''keytool'')]) m0 world0)) = Some y \<and>
      sublist ''exec: keytool: executable file not found in $PATH'' (Error y)"
    by (simp only: Error.simps)
  from 4 have u2: "\<exists>y. snd (fst (UpdateKeystoreBase64 (sim [(SysExec, ''keytool'')]) m0 ''new'' world0)) = Some y \<and>
      sublist ''exec: keytool: executable file not found in $PATH'' (Error y)"
    by (simp only: Error.simps)
  from c u d 1 c2 3 u2 5 show ?thesis
    by (intro conjI)
qed

text \<open>
  C2. \<open>UpdateKeystoreBase64\<close> performs these steps on the system, in this order:
  decode the old blob, write the decoded bytes to the first temp file, run
  \<open>keytool -importkeystore\<close> (source type PKCS12, the old password as source store
  password, destination type PKCS12, the new password as destination store and key
  password) on the files the write left, remove the first temp file, read the second
  temp file, remove the second temp file, and return the base64 encoding of the bytes
  read. Whenever the system lets each of these calls succeed, the run makes all of them,
  leaves the files the last call left and returns that encoding; a run that returns no
  error is such a run; every run, failed or not, makes an initial segment of the
  sequence, and each call it records was made on the system with the recorded result.
\<close>

theorem UpdateKeystoreBase64_steps:
  "(DecodeString (Base64Text oldModel) = (decoded, None) \<and>
    sys_WriteFile e FILENAME decoded (files w) = (None, fs1) \<and>
    sys_CombinedOutput e
      [''keytool'', ''-importkeystore'',
       ''-srckeystore'', FILENAME,
       ''-srcstoretype'', ''PKCS12'',
       ''-srcstorepass'', Password oldModel,
       ''-destkeystore'', FILENAME2,
       ''-deststoretype'', ''PKCS12'',
       ''-deststorepass'', newPassword,
       ''-destkeypass'', newPassword] fs1 = ((out, None), fs2) \<and>
    sys_Remove e FILENAME fs2 = (None, fs3) \<and>
    sys_ReadFile e FILENAME2 fs3 = Inr bytes \<and>
    sys_Remove e FILENAME2 fs3 = (None, fs4) \<longrightarrow>
      UpdateKeystoreBase64 e oldModel newPassword w =
        ((EncodeToString bytes, None),
         w\<lparr>files := fs4,
           trace := trace w @
             [WriteFile FILENAME decoded None,
              CombinedOutput
                [''keytool'', ''-importkeystore'',
                 ''-srckeystore'', FILENAME,
                 ''-srcstoretype'', ''PKCS12'',
                 ''-srcstorepass'', Password oldModel,
                 ''-destkeystore'', FILENAME2,
                 ''-deststoretype'', ''PKCS12'',
                 ''-deststorepass'', newPassword,
                 ''-destkeypass'', newPassword] out None,
              Remove FILENAME None,
              ReadFile FILENAME2 (Inr bytes),
              Remove FILENAME2 None]\<rparr>))
   \<and> (snd (fst (UpdateKeystoreBase64 e oldModel newPassword w)) = None \<longrightarrow>
      (\<exists>decoded' fs1' out' fs2' fs3' bytes' fs4'.
         DecodeString (Base64Text oldModel) = (decoded', None) \<and>
         sys_WriteFile e FILENAME decoded' (files w) = (None, fs1') \<and>
         sys_CombinedOutput e
           [''keytool'', ''-importkeystore'',
            ''-srckeystore'', FILENAME,
            ''-srcstoretype'', ''PKCS12'',
            ''-srcstorepass'', Password oldModel,
            ''-destkeystore'', FILENAME2,
            ''-deststoretype'', ''PKCS12'',
            ''-deststorepass'', newPassword,
            ''-destkeypass'', newPassword] fs1' = ((out', None), fs2') \<and>
         sys_Remove e FILENAME fs2' = (None, fs3') \<and>
         sys_ReadFile e FILENAME2 fs3' = Inr bytes' \<and>
         sys_Remove e FILENAME2 fs3' = (None, fs4') \<and>
         fst (fst (UpdateKeystoreBase64 e oldModel newPassword w)) = EncodeToString bytes' \<and>
         files (snd (UpdateKeystoreBase64 e oldModel newPassword w)) = fs4' \<and>
         new_events w (snd (UpdateKeystoreBase64 e oldModel newPassword w)) =
           [WriteFile FILENAME decoded' None,
            CombinedOutput
              [''keytool'', ''-importkeystore'',
               ''-srckeystore'', FILENAME,
               ''-srcstoretype'', ''PKCS12'',
               ''-srcstorepass'', Password oldModel,
               ''-destkeystore'', FILENAME2,
               ''-deststoretype'', ''PKCS12'',
               ''-deststorepass'', newPassword,
               ''-destkeypass'', newPassword] out' None,
            Remove FILENAME None,
            ReadFile FILENAME2 (Inr bytes'),
            Remove FILENAME2 None]))
   \<and> prefix (map call_of (new_events w (snd (UpdateKeystoreBase64 e oldModel newPassword w))))
        [CallWriteFile FILENAME (fst (DecodeString (Base64Text oldModel))),
         CallCombinedOutput
           [''keytool'', ''-importkeystore'',
            ''-srckeystore'', FILENAME,
            ''-srcstoretype'', ''PKCS12'',
            ''-srcstorepass'', Password oldModel,
            ''-destkeystore'', FILENAME2,
            ''-deststoretype'', ''PKCS12'',
            ''-deststorepass'', newPassword,
            ''-destkeypass'', newPassword],
         CallRemove FILENAME,
         CallReadFile FILENAME2,
         CallRemove FILENAME2]
   \<and> replay e (new_events w (snd (UpdateKeystoreBase64 e oldModel newPassword w))) (files w) =
        Some (files (snd (UpdateKeystoreBase64 e oldModel newPassword w)))"
proof -
  have c: "changePassCmd oldModel newPassword =
      [''keytool'', ''-importkeystore'',
       ''-srckeystore'', FILENAME,
       ''-srcstoretype'', ''PKCS12'',
       ''-srcstorepass'', Password oldModel,
       ''-destkeystore'', FILENAME2,
       ''-deststoretype'', ''PKCS12'',
       ''-deststorepass'', newPassword,
       ''-destkeypass'', newPassword]"
    by (simp add: changePassCmd_def)
  have inv: "snd (fst (UpdateKeystoreBase64 e oldModel newPassword w)) = None \<longrightarrow>
      (\<exists>decoded' fs1' out' fs2' fs3' bytes' fs4'.
         DecodeString (Base64Text oldModel) = (decoded', None) \<and>
         sys_WriteFile e FILENAME decoded' (files w) = (None, fs1') \<and>
         sys_CombinedOutput e (changePassCmd oldModel newPassword) fs1' = ((out', None), fs2') \<and>
         sys_Remove e FILENAME fs2' = (None, fs3') \<and>
         sys_ReadFile e FILENAME2 fs3' = Inr bytes' \<and>
         sys_Remove e FILENAME2 fs3' = (None, fs4') \<and>
         fst (fst (UpdateKeystoreBase64 e oldModel newPassword w)) = EncodeToString bytes' \<and>
         files (snd (UpdateKeystoreBase64 e oldModel newPassword w)) = fs4' \<and>
         new_events w (snd (UpdateKeystoreBase64 e oldModel newPassword w)) =
           [WriteFile FILENAME decoded' None,
            CombinedOutput (changePassCmd oldModel newPassword) out' None,
            Remove FILENAME None,
            ReadFile FILENAME2 (Inr bytes'),
            Remove FILENAME2 None])"
  proof
    assume n: "snd (fst (UpdateKeystoreBase64 e oldModel newPassword w)) = None"
    from UpdateKeystoreBase64_ok_inv [OF n]
    obtain decoded' fs1' out' fs2' fs3' bytes' fs4' where
      h: "DecodeString (Base64Text oldModel) = (decoded', None)"
         "sys_WriteFile e FILENAME decoded' (files w) = (None, fs1')"
         "sys_CombinedOutput e (changePassCmd oldModel newPassword) fs1' = ((out', None), fs2')"
         "sys_Remove e FILENAME fs2' = (None, fs3')"
         "sys_ReadFile e FILENAME2 fs3' = Inr bytes'"
         "sys_Remove e FILENAME2 fs3' = (None, fs4')"
      by blast
    note eq = UpdateKeystoreBase64_ok [OF h]
    show "\<exists>decoded' fs1' out' fs2' fs3' bytes' fs4'.
         DecodeString (Base64Text oldModel) = (decoded', None) \<and>
         sys_WriteFile e FILENAME decoded' (files w) = (None, fs1') \<and>
         sys_CombinedOutput e (changePassCmd oldModel newPassword) fs1' = ((out', None), fs2') \<and>
         sys_Remove e FILENAME fs2' = (None, fs3') \<and>
         sys_ReadFile e FILENAME2 fs3' = Inr bytes' \<and>
         sys_Remove e FILENAME2 fs3' = (None, fs4') \<and>
         fst (fst (UpdateKeystoreBase64 e oldModel newPassword w)) = EncodeToString bytes' \<and>
         files (snd (UpdateKeystoreBase64 e oldModel newPassword w)) = fs4' \<and>
         new_events w (snd (UpdateKeystoreBase64 e oldModel newPassword w)) =
           [WriteFile FILENAME decoded' None,
            CombinedOutput (changePassCmd oldModel newPassword) out' None,
            Remove FILENAME None,
            ReadFile FILENAME2 (Inr bytes'),
            Remove FILENAME2 None]"
      by (intro exI [of _ decoded'] exI [of _ fs1'] exI [of _ out'] exI [of _ fs2']
          exI [of _ fs3'] exI [of _ bytes'] exI [of _ fs4']) (simp add: h eq)
  qed
  show ?thesis
    using UpdateKeystoreBase64_ok [of oldModel decoded e w fs1 newPassword out fs2 fs3 bytes fs4]
      inv UpdateKeystoreBase64_calls_prefix [of w e oldModel newPassword]
      replay_UpdateKeystoreBase64 [of e w oldModel newPassword]
    unfolding c by blast
qed

theorem UpdateKeystoreBase64_steps_witness:
  "fst (UpdateKeystoreBase64 (sim []) m0 ''new'' world0) = (''MIIKAA=='', None)
   \<and> trace (snd (UpdateKeystoreBase64 (sim []) m0 ''new'' world0)) =
       [WriteFile FILENAME [0x30, 0x82, 0x0A, 0x00] None,
        CombinedOutput
          [''keytool'', ''-importkeystore'',
           ''-srckeystore'', FILENAME,
           ''-srcstoretype'', ''PKCS12'',
           ''-srcstorepass'', ''old'',
           ''-destkeystore'', FILENAME2,
           ''-deststoretype'', ''PKCS12'',
           ''-deststorepass'', ''new'',
           ''-destkeypass'', ''new''] ''Import command completed'' None,
        Remove FILENAME None,
        ReadFile FILENAME2 (Inr [0x30, 0x82, 0x0A, 0x00]),
        Remove FILENAME2 None]
   \<and> files (snd (UpdateKeystoreBase64 (sim []) m0 ''new'' world0)) FILENAME = None
   \<and> files (snd (UpdateKeystoreBase64 (sim []) m0 ''new'' world0)) FILENAME2 = None"
proof -
  define argv where "argv =
     [''keytool'', ''-importkeystore'',
      ''-srckeystore'', FILENAME,
      ''-srcstoretype'', ''PKCS12'',
      ''-srcstorepass'', Password m0,
      ''-destkeystore'', FILENAME2,
      ''-deststoretype'', ''PKCS12'',
      ''-deststorepass'', ''new'',
      ''-destkeypass'', ''new'']"
  define fs1 where "fs1 = snd (sys_WriteFile (sim []) FILENAME [0x30, 0x82, 0x0A, 0x00] (files world0))"
  define fs2 where "fs2 = snd (sys_CombinedOutput (sim []) argv fs1)"
  define fs3 where "fs3 = snd (sys_Remove (sim []) FILENAME fs2)"
  define fs4 where "fs4 = snd (sys_Remove (sim []) FILENAME2 fs3)"
  have 0: "DecodeString (Base64Text m0) = ([0x30, 0x82, 0x0A, 0x00], None)"
    by code_simp
  have "fst (sys_WriteFile (sim []) FILENAME [0x30, 0x82, 0x0A, 0x00] (files world0)) = None"
    by code_simp
  then have 1: "sys_WriteFile (sim []) FILENAME [0x30, 0x82, 0x0A, 0x00] (files world0) = (None, fs1)"
    by (simp add: fs1_def prod_eq_iff)
  have "fst (sys_CombinedOutput (sim []) argv fs1) = (''Import command completed'', None)"
    unfolding fs1_def argv_def by code_simp
  then have 2: "sys_CombinedOutput (sim []) argv fs1 = ((''Import command completed'', None), fs2)"
    by (simp add: fs2_def prod_eq_iff)
  have "fst (sys_Remove (sim []) FILENAME fs2) = None"
    unfolding fs2_def fs1_def argv_def by code_simp
  then have 3: "sys_Remove (sim []) FILENAME fs2 = (None, fs3)"
    by (simp add: fs3_def prod_eq_iff)
  have 4: "sys_ReadFile (sim []) FILENAME2 fs3 = Inr [0x30, 0x82, 0x0A, 0x00]"
    unfolding fs3_def fs2_def fs1_def argv_def by code_simp
  have "fst (sys_Remove (sim []) FILENAME2 fs3) = None"
    unfolding fs3_def fs2_def fs1_def argv_def by code_simp
  then have 5: "sys_Remove (sim []) FILENAME2 fs3 = (None, fs4)"
    by (simp add: fs4_def prod_eq_iff)
  have 6: "fs4 FILENAME = None"
    unfolding fs4_def fs3_def fs2_def fs1_def argv_def by code_simp
  have 7: "fs4 FILENAME2 = None"
    unfolding fs4_def fs3_def fs2_def fs1_def argv_def by code_simp
  have 8: "EncodeToString [0x30, 0x82, 0x0A, 0x00] = ''MIIKAA==''"
    by code_simp
  have p: "Password m0 = ''old''"
    by (simp add: m0_def)
  have t: "trace world0 = []"
    by (simp add: world0_def)
  from 0 1 2 [unfolded argv_def] 3 4 5
    UpdateKeystoreBase64_steps [of m0 "[0x30, 0x82, 0x0A, 0x00]" "sim []" world0 fs1
      "''new''" "''Import command completed''" fs2 fs3 "[0x30, 0x82, 0x0A, 0x00]" fs4]
  have "UpdateKeystoreBase64 (sim []) m0 ''new'' world0 =
        ((EncodeToString [0x30, 0x82, 0x0A, 0x00], None),
         world0\<lparr>files := fs4,
           trace := trace world0 @
             [WriteFile FILENAME [0x30, 0x82, 0x0A, 0x00] None,
              CombinedOutput
                [''keytool'', ''-importkeystore'',
                 ''-srckeystore'', FILENAME,
                 ''-srcstoretype'', ''PKCS12'',
                 ''-srcstorepass'', Password m0,
                 ''-destkeystore'', FILENAME2,
                 ''-deststoretype'', ''PKCS12'',
                 ''-deststorepass'', ''new'',
                 ''-destkeypass'', ''new''] ''Import command completed'' None,
              Remove FILENAME None,
              ReadFile FILENAME2 (Inr [0x30, 0x82, 0x0A, 0x00]),
              Remove FILENAME2 None]\<rparr>)"
    by blast
  then show ?thesis
    by (simp add: 6 7 8 p t)
qed

text \<open>
  C3. Every run of \<open>CreateKeystoreBase64\<close> starts by running, on the files it was
  given, the command \<open>keytool\<close> with \<open>-genkeypair\<close>, alias \<open>keystore\<close>,
  validity 10000, key algorithm RSA, key size 2048, the fixed keystore file name, and
  the model's password as both \<open>-keypass\<close> and \<open>-storepass\<close>; the recorded output
  and error are the system's answer to that command, no other command is run, and the
  files the run leaves are those the system's calls left.
\<close>

theorem CreateKeystoreBase64_command:
  "(\<exists>rest.
      new_events w (snd (CreateKeystoreBase64 e m w)) =
        CombinedOutput
          [''keytool'', ''-v'', ''-genkeypair'',
           ''-alias'', ''keystore'',
           ''-keypass'', Password m,
           ''-keystore'', FILENAME,
           ''-storepass'', Password m,
           ''-validity'', ''10000'',
           ''-keyalg'', ''RSA'',
           ''-keysize'', ''2048'',
           ''-dname'', ''CN=Unknown, OU=Unknown, O=Unknown, L=Unknown, S=Unknown, C=Unknown'']
          (fst (fst (sys_CombinedOutput e (create_cmd m) (files w))))
          (snd (fst (sys_CombinedOutput e (create_cmd m) (files w)))) # rest
      \<and> filter is_CombinedOutput rest = [])
   \<and> create_cmd m =
        [''keytool'', ''-v'', ''-genkeypair'',
         ''-alias'', ''keystore'',
         ''-keypass'', Password m,
         ''-keystore'', FILENAME,
         ''-storepass'', Password m,
         ''-validity'', ''10000'',
         ''-keyalg'', ''RSA'',
         ''-keysize'', ''2048'',
         ''-dname'', ''CN=Unknown, OU=Unknown, O=Unknown, L=Unknown, S=Unknown, C=Unknown'']
   \<and> replay e (new_events w (snd (CreateKeystoreBase64 e m w))) (files w) =
        Some (files (snd (CreateKeystoreBase64 e m w)))"
proof -
  have c: "create_cmd m =
        [''keytool'', ''-v'', ''-genkeypair'',
         ''-alias'', ''keystore'',
         ''-keypass'', Password m,
         ''-keystore'', FILENAME,
         ''-storepass'', Password m,
         ''-validity'', ''10000'',
         ''-keyalg'', ''RSA'',
         ''-keysize'', ''2048'',
         ''-dname'', ''CN=Unknown, OU=Unknown, O=Unknown, L=Unknown, S=Unknown, C=Unknown'']"
    by (simp add: create_cmd_def)
  from CreateKeystoreBase64_first_call [of w e m] replay_CreateKeystoreBase64 [of e w m] c
  show ?thesis
    by metis
qed



text \<open>
  C5. When the old model's base64 text does not decode, \<open>UpdateKeystoreBase64\<close>
  returns the decode error (a \<open>CorruptInputError\<close>) with the empty string and leaves
  the world as it was: no file is written and no subprocess is run.
\<close>

theorem UpdateKeystoreBase64_decode_error_first:
  assumes "snd (DecodeString (Base64Text oldModel)) = Some x"
  shows "UpdateKeystoreBase64 e oldModel newPassword w = (([], Some x), w)
         \<and> (\<exists>n. x = CorruptInputError n)"
  using assms DecodeString_error [of "Base64Text oldModel" x]
  by (cases rule: UpdateKeystoreBase64_runs [of oldModel e newPassword w]) simp_all

theorem UpdateKeystoreBase64_decode_error_first_witness:
  "snd (DecodeString (Base64Text m_corrupt)) = Some (CorruptInputError 3)
   \<and> UpdateKeystoreBase64 (sim []) m_corrupt ''new'' world0 =
       (([], Some (CorruptInputError 3)), world0)"
proof -
  have h: "snd (DecodeString (Base64Text m_corrupt)) = Some (CorruptInputError 3)"
    by code_simp
  from h UpdateKeystoreBase64_decode_error_first [OF h, of "sim []" "''new''" world0]
  show ?thesis by simp
qed




text \<open>
  C7. \<open>Read\<close> stores in the response exactly the state of the request (identifier,
  password and base64 value with it), adds no diagnostic, and reading again changes
  nothing. \<open>Read\<close> has the same text in both variants of the resource and is stated
  for any data model.
\<close>

theorem Read_writes_back_prior_state:
  "(\<not> HasError (Diagnostics resp) \<longrightarrow>
      Response.State (Read req resp) = Some (ReadRequest.State req))
   \<and> (Response.State resp = Some (ReadRequest.State req) \<longrightarrow>
      Response.State (Read req resp) = Some (ReadRequest.State req))
   \<and> Diagnostics (Read req resp) = Diagnostics resp
   \<and> Read req (Read req resp) = Read req resp"
  by (simp add: Read_def State_Set_def Let_def)

theorem Read_writes_back_prior_state_witness:
  "\<not> HasError (Diagnostics resp0)
   \<and> Response.State resp0 = Some (ReadRequest.State rreq0)
   \<and> Response.State (Read rreq0 resp0) = Some state0
   \<and> Read rreq0 (Read rreq0 resp0) = Read rreq0 resp0"
proof -
  have 1: "\<not> HasError (Diagnostics resp0)"
    by code_simp
  have 2: "ReadRequest.State rreq0 = state0"
    by (simp add: rreq0_def)
  have 3: "Response.State resp0 = Some (ReadRequest.State rreq0)"
    by (simp add: resp0_def rreq0_def)
  from 1 3 Read_writes_back_prior_state [of resp0 rreq0]
  show ?thesis unfolding 2 by blast
qed

text \<open>
  C8. Cleanup of the temp files is not guaranteed on the rotation path: there are runs
  of \<open>UpdateKeystoreBase64\<close> in which \<open>keytool\<close> has succeeded and produced the
  second temp file, a later step fails (removing the first temp file, or reading the
  second), the operation returns an error, and the second temp file, absent before the
  run, is still there after it.
\<close>

theorem UpdateKeystoreBase64_may_leave_second_file:
  "(\<exists>e oldModel newPassword w x out.
      files w FILENAME2 = None \<and>
      fst (UpdateKeystoreBase64 e oldModel newPassword w) = ([], Some x) \<and>
      new_events w (snd (UpdateKeystoreBase64 e oldModel newPassword w)) =
        [WriteFile FILENAME (fst (DecodeString (Base64Text oldModel))) None,
         CombinedOutput (changePassCmd oldModel newPassword) out None,
         Remove FILENAME (Some (SysError (''remove '' @ FILENAME @ '': permission denied'')))] \<and>
      files (snd (UpdateKeystoreBase64 e oldModel newPassword w)) FILENAME2 \<noteq> None)
   \<and> (\<exists>e oldModel newPassword w x out.
      files w FILENAME2 = None \<and>
      fst (UpdateKeystoreBase64 e oldModel newPassword w) = ([], Some x) \<and>
      new_events w (snd (UpdateKeystoreBase64 e oldModel newPassword w)) =
        [WriteFile FILENAME (fst (DecodeString (Base64Text oldModel))) None,
         CombinedOutput (changePassCmd oldModel newPassword) out None,
         Remove FILENAME None,
         ReadFile FILENAME2 (Inl (SysError (''open '' @ FILENAME2 @ '': permission denied'')))] \<and>
      files (snd (UpdateKeystoreBase64 e oldModel newPassword w)) FILENAME2 \<noteq> None)"
proof (intro conjI)
  have 1: "files world0 FILENAME2 = None"
    by (simp add: world0_def)
  have 2: "fst (UpdateKeystoreBase64 (sim [(SysRemove, FILENAME)]) m0 ''new'' world0) =
      ([], Some (Errorf ''error removing old keystore file after changing password\<newline>File name: 79e00021-58b2-4652-b498-59134c0ed6e7.pkcs12\<newline>Error: remove 79e00021-58b2-4652-b498-59134c0ed6e7.pkcs12: permission denied''))"
    by code_simp
  have 3: "new_events world0 (snd (UpdateKeystoreBase64 (sim [(SysRemove, FILENAME)]) m0 ''new'' world0)) =
        [WriteFile FILENAME (fst (DecodeString (Base64Text m0))) None,
         CombinedOutput (changePassCmd m0 ''new'') ''Import command completed'' None,
         Remove FILENAME (Some (SysError (''remove '' @ FILENAME @ '': permission denied'')))]"
    by code_simp
  have 4: "files (snd (UpdateKeystoreBase64 (sim [(SysRemove, FILENAME)]) m0 ''new'' world0)) FILENAME2 \<noteq> None"
    by code_simp
  from 1 2 3 4 show "\<exists>e oldModel newPassword w x out.
      files w FILENAME2 = None \<and>
      fst (UpdateKeystoreBase64 e oldModel newPassword w) = ([], Some x) \<and>
      new_events w (snd (UpdateKeystoreBase64 e oldModel newPassword w)) =
        [WriteFile FILENAME (fst (DecodeString (Base64Text oldModel))) None,
         CombinedOutput (changePassCmd oldModel newPassword) out None,
         Remove FILENAME (Some (SysError (''remove '' @ FILENAME @ '': permission denied'')))] \<and>
      files (snd (UpdateKeystoreBase64 e oldModel newPassword w)) FILENAME2 \<noteq> None"
    by blast
next
  have 1: "files world0 FILENAME2 = None"
    by (simp add: world0_def)
  have 2: "fst (UpdateKeystoreBase64 (sim [(SysRead, FILENAME2)]) m0 ''new'' world0) =
      ([], Some (Errorf ''error reading new keystore file after changing password\<newline>File name: 79e00021-58b2-4652-b498-59134c0ed6e72.pkcs12\<newline>Error: open 79e00021-58b2-4652-b498-59134c0ed6e72.pkcs12: permission denied''))"
    by code_simp
  have 3: "new_events world0 (snd (UpdateKeystoreBase64 (sim [(SysRead, FILENAME2)]) m0 ''new'' world0)) =
        [WriteFile FILENAME (fst (DecodeString (Base64Text m0))) None,
         CombinedOutput (changePassCmd m0 ''new'') ''Import command completed'' None,
         Remove FILENAME None,
         ReadFile FILENAME2 (Inl (SysError (''open '' @ FILENAME2 @ '': permission denied'')))]"
    by code_simp
  have 4: "files (snd (UpdateKeystoreBase64 (sim [(SysRead, FILENAME2)]) m0 ''new'' world0)) FILENAME2 \<noteq> None"
    by code_simp
  from 1 2 3 4 show "\<exists>e oldModel newPassword w x out.
      files w FILENAME2 = None \<and>
      fst (UpdateKeystoreBase64 e oldModel newPassword w) = ([], Some x) \<and>
      new_events w (snd (UpdateKeystoreBase64 e oldModel newPassword w)) =
        [WriteFile FILENAME (fst (DecodeString (Base64Text oldModel))) None,
         CombinedOutput (changePassCmd oldModel newPassword) out None,
         Remove FILENAME None,
         ReadFile FILENAME2 (Inl (SysError (''open '' @ FILENAME2 @ '': permission denied'')))] \<and>
      files (snd (UpdateKeystoreBase64 e oldModel newPassword w)) FILENAME2 \<noteq> None"
    by blast
qed

text \<open>
  C9. When the planned data equals the prior state, \<open>Update\<close> stores the planned
  data, which is the prior state with its base64 value, and returns with the world as it
  was: \<open>UpdateKeystoreBase64\<close> is not called, no subprocess runs and no temp file is
  touched.
\<close>

theorem Update_of_equal_plan_runs_nothing:
  assumes "UpdateRequest.Plan req = UpdateRequest.State req"
  shows "snd (Update e req resp w) = w
   \<and> fst (Update e req resp w) =
       (if HasError (Diagnostics resp) then resp
        else resp\<lparr>Response.State := Some (UpdateRequest.State req)\<rparr>)
   \<and> new_events w (snd (Update e req resp w)) = []"
  using assms by (simp add: Update_def State_Set_def Let_def)

theorem Update_of_equal_plan_runs_nothing_witness:
  "UpdateRequest.Plan ureq_same = UpdateRequest.State ureq_same
   \<and> snd (Update (sim []) ureq_same resp0 world0) = world0
   \<and> Response.State (fst (Update (sim []) ureq_same resp0 world0)) = Some state0"
proof -
  have 1: "UpdateRequest.Plan ureq_same = UpdateRequest.State ureq_same"
    by (simp add: ureq_same_def)
  have 2: "\<not> HasError (Diagnostics resp0)"
    by code_simp
  have 3: "UpdateRequest.State ureq_same = state0"
    by (simp add: ureq_same_def)
  from 1 2 Update_of_equal_plan_runs_nothing [OF 1, of "sim []" resp0 world0]
  show ?thesis unfolding 3 by simp
qed

text \<open>
  C10. The empty string decodes to zero bytes without error, so \<open>UpdateKeystoreBase64\<close>
  on an old model with an empty base64 text does not stop at the decode step: its first
  call is the system's write of an empty first temp file and, when that write succeeds,
  its second is the \<open>keytool\<close> command on the files the write left, recorded with the
  system's answer. The decode step stops only strings that do not decode: whenever the
  text decodes, to a keystore or not, the write of the decoded bytes is made. The files
  a run leaves are those the system's calls left.
\<close>

theorem UpdateKeystoreBase64_empty_blob_reaches_keytool:
  "DecodeString [] = ([], None)
   \<and> (Base64Text oldModel = [] \<longrightarrow>
        (\<exists>rest. new_events w (snd (UpdateKeystoreBase64 e oldModel newPassword w)) =
           WriteFile FILENAME [] (fst (sys_WriteFile e FILENAME [] (files w))) # rest))
   \<and> (Base64Text oldModel = [] \<and> sys_WriteFile e FILENAME [] (files w) = (None, fs1) \<longrightarrow>
        (\<exists>rest. new_events w (snd (UpdateKeystoreBase64 e oldModel newPassword w)) =
           WriteFile FILENAME [] None #
           CombinedOutput (changePassCmd oldModel newPassword)
             (fst (fst (sys_CombinedOutput e (changePassCmd oldModel newPassword) fs1)))
             (snd (fst (sys_CombinedOutput e (changePassCmd oldModel newPassword) fs1))) # rest))
   \<and> (snd (DecodeString (Base64Text oldModel)) = None \<longrightarrow>
        (\<exists>rest. new_events w (snd (UpdateKeystoreBase64 e oldModel newPassword w)) =
           WriteFile FILENAME (fst (DecodeString (Base64Text oldModel)))
             (fst (sys_WriteFile e FILENAME (fst (DecodeString (Base64Text oldModel))) (files w)))
           # rest))
   \<and> replay e (new_events w (snd (UpdateKeystoreBase64 e oldModel newPassword w))) (files w) =
        Some (files (snd (UpdateKeystoreBase64 e oldModel newPassword w)))"
proof -
  have d: "DecodeString [] = ([], None)"
    by (simp add: DecodeString_def)
  have a: "Base64Text oldModel = [] \<Longrightarrow> DecodeString (Base64Text oldModel) = ([], None)"
    using d by simp
  have b: "snd (DecodeString (Base64Text oldModel)) = None \<Longrightarrow>
      DecodeString (Base64Text oldModel) = (fst (DecodeString (Base64Text oldModel)), None)"
    by (metis prod.collapse)
  show ?thesis
    using d UpdateKeystoreBase64_write_called [OF a, of w e newPassword]
      UpdateKeystoreBase64_exec_called [OF a, of e w fs1 newPassword]
      UpdateKeystoreBase64_write_called [OF b, of w e newPassword]
      replay_UpdateKeystoreBase64 [of e w oldModel newPassword]
    by blast
qed

theorem UpdateKeystoreBase64_empty_blob_reaches_keytool_witness:
  "Base64Text m_empty = []
   \<and> fst (sys_WriteFile (sim []) FILENAME [] (files world0)) = None
   \<and> (\<exists>rest. new_events world0 (snd (UpdateKeystoreBase64 (sim []) m_empty ''new'' world0)) =
          WriteFile FILENAME [] None #
          CombinedOutput (changePassCmd m_empty ''new'') ''Import command completed'' None # rest)
   \<and> files (snd (UpdateKeystoreBase64 (sim [(SysRemove, FILENAME)]) m_empty ''new'' world0))
        FILENAME = Some []
   \<and> snd (DecodeString (Base64Text m_zeros)) = None
   \<and> (\<exists>rest. new_events world0 (snd (UpdateKeystoreBase64 (sim []) m_zeros ''new'' world0)) =
          WriteFile FILENAME [0, 0, 0] None # rest)"
proof -
  define fs1 where "fs1 = snd (sys_WriteFile (sim []) FILENAME [] (files world0))"
  have 1: "Base64Text m_empty = []"
    by (simp add: m_empty_def)
  have 2: "fst (sys_WriteFile (sim []) FILENAME [] (files world0)) = None"
    by code_simp
  then have w1: "sys_WriteFile (sim []) FILENAME [] (files world0) = (None, fs1)"
    by (simp add: fs1_def prod_eq_iff)
  have 3: "snd (DecodeString (Base64Text m_zeros)) = None"
    by code_simp
  have 4: "fst (DecodeString (Base64Text m_zeros)) = [0, 0, 0]"
    by code_simp
  have 5: "fst (sys_CombinedOutput (sim []) (changePassCmd m_empty ''new'') fs1) =
      (''Import command completed'', None)"
    unfolding fs1_def by code_simp
  have 6: "fst (sys_WriteFile (sim []) FILENAME [0, 0, 0] (files world0)) = None"
    by code_simp
  have 7: "files (snd (UpdateKeystoreBase64 (sim [(SysRemove, FILENAME)]) m_empty ''new'' world0))
        FILENAME = Some []"
    by code_simp
  from 1 w1 UpdateKeystoreBase64_empty_blob_reaches_keytool
      [of m_empty world0 "sim []" "''new''" fs1]
  have a: "\<exists>rest. new_events world0 (snd (UpdateKeystoreBase64 (sim []) m_empty ''new'' world0)) =
          WriteFile FILENAME [] None #
          CombinedOutput (changePassCmd m_empty ''new'')
            (fst (fst (sys_CombinedOutput (sim []) (changePassCmd m_empty ''new'') fs1)))
            (snd (fst (sys_CombinedOutput (sim []) (changePassCmd m_empty ''new'') fs1))) # rest"
    by blast
  from 3 UpdateKeystoreBase64_empty_blob_reaches_keytool
      [of m_zeros world0 "sim []" "''new''" fs1]
  have b: "\<exists>rest. new_events world0 (snd (UpdateKeystoreBase64 (sim []) m_zeros ''new'' world0)) =
           WriteFile FILENAME (fst (DecodeString (Base64Text m_zeros)))
             (fst (sys_WriteFile (sim []) FILENAME (fst (DecodeString (Base64Text m_zeros)))
                (files world0))) # rest"
    by blast
  from 1 2 3 7 a [unfolded 5] b [unfolded 4 6] show ?thesis
    by simp
qed

end
